theory Spec2Isabelle
  imports Complex_Main "HOL-Library.AList"
begin

section \<open>Semantic search: \<^verbatim>\<open>src/handlers/semanticSearchHandler.cjs\<close>\<close>

text \<open>
  JavaScript numbers are modelled as \<^typ>\<open>real\<close> where they are similarities, vector
  components and confidences, and as \<^typ>\<open>int\<close> where they are counts and slice bounds.
  Properties that do not depend on rounding are stated about this model; for the one that
  does, \<^verbatim>\<open>cosineSimilarity\<close> is modelled a second time in double precision.
  Every \<^verbatim>\<open>throw\<close> of the source is a left injection of a sum type.
\<close>

datatype search_error =
    RequiredParams       \<comment> \<open>\<^verbatim>\<open>sessionId and query are required\<close>\<close>
  | EmbeddingFailed      \<comment> \<open>\<^verbatim>\<open>Failed to generate embedding: ...\<close>\<close>
  | QueryFailed          \<comment> \<open>the rejected promise of the database query\<close>
  | VectorsLength        \<comment> \<open>\<^verbatim>\<open>Vectors must have the same length\<close>\<close>
  | MetadataSyntax       \<comment> \<open>the SyntaxError of \<^verbatim>\<open>JSON.parse(msg.metadata)\<close>\<close>

subsection \<open>cosineSimilarity\<close>

text \<open>The \<^verbatim>\<open>for\<close> loop over the indices, carrying dotProduct, normA and normB.\<close>

fun cosine_loop :: "real list \<Rightarrow> real list \<Rightarrow> real \<times> real \<times> real \<Rightarrow> real \<times> real \<times> real" where
  "cosine_loop (a # as) (b # bs) (dotProduct, normA, normB) =
     cosine_loop as bs (dotProduct + a * b, normA + a * a, normB + b * b)"
| "cosine_loop _ _ acc = acc"

definition cosineSimilarity :: "real list \<Rightarrow> real list \<Rightarrow> search_error + real" where
  "cosineSimilarity vecA vecB =
     (if length vecA \<noteq> length vecB then Inl VectorsLength
      else (case cosine_loop vecA vecB (0, 0, 0) of
              (dotProduct, sumA, sumB) \<Rightarrow>
                (let normA = sqrt sumA; normB = sqrt sumB
                 in if normA = 0 \<or> normB = 0 then Inr 0
                    else Inr (dotProduct / (normA * normB)))))"

text \<open>The magnitude that the function computes for one vector: the root of the sum of squares.\<close>

definition magnitude :: "real list \<Rightarrow> real" where
  "magnitude v = sqrt (\<Sum>x\<leftarrow>v. x * x)"

subsection \<open>cosineSimilarity in double precision\<close>











subsection \<open>Array.prototype.slice\<close>

text \<open>
  \<^verbatim>\<open>xs.slice(start, end)\<close> on integer arguments: a negative bound counts from the end
  of the array, and both bounds are clamped to the array.
\<close>

definition js_slice :: "int \<Rightarrow> int \<Rightarrow> 'a list \<Rightarrow> 'a list" where
  "js_slice start fin xs =
     (let len = int (length xs);
          k = (if start < 0 then max (len + start) 0 else min start len);
          final = (if fin < 0 then max (len + fin) 0 else min fin len)
      in take (nat (final - k)) (drop (nat k) xs))"

text \<open>\<^verbatim>\<open>xs.slice(start)\<close>: the end defaults to the length.\<close>

definition js_slice_from :: "int \<Rightarrow> 'a list \<Rightarrow> 'a list" where
  "js_slice_from start xs = js_slice start (int (length xs)) xs"

subsection \<open>Rows and scored messages\<close>

text \<open>
  The \<^verbatim>\<open>embedding\<close> column of a row as the handler sees it: a falsy value, an array,
  or a non-empty string, for which \<^verbatim>\<open>JSON.parse\<close> either throws (\<open>None\<close>) or yields
  an array.
\<close>

datatype raw_embedding =
    EmbNull
  | EmbArray "real list"
  | EmbText "real list option"

text \<open>
  The \<^verbatim>\<open>metadata\<close> column: falsy (replaced by \<^verbatim>\<open>'{}'\<close>) or a non-empty string on
  which \<^verbatim>\<open>JSON.parse\<close> throws (\<open>None\<close>) or yields a value, kept as its text.
\<close>

datatype raw_metadata =
    MetaFalsy
  | MetaText "string option"

record message_row =
  row_id :: string
  row_session_id :: string
  row_content :: string
  row_role :: string
  row_created_at :: string
  row_metadata :: raw_metadata
  row_embedding :: raw_embedding

record scored_message =
  sm_id :: string
  sm_sessionId :: string
  sm_text :: string
  sm_sender :: string
  sm_timestamp :: string
  sm_metadata :: string
  similarity :: real
  hasEmbedding :: bool

datatype reason = Recent | Semantic

record search_stats =
  totalMessages :: nat
  recentCount :: nat
  semanticCount :: nat
  messagesWithEmbeddings :: nat

record search_result =
  messages :: "(scored_message \<times> reason) list"
  count :: nat
  searchQuery :: string
  search_method :: string
  stats :: "search_stats option"

record search_payload =
  p_sessionId :: "string option"
  p_query :: "string option"
  p_limit :: "int option"
  p_minSimilarity :: "real option"
  p_includeRecent :: "int option"

text \<open>The local variable \<^verbatim>\<open>embedding\<close> of the scoring callback: \<open>None\<close> is \<^verbatim>\<open>null\<close>.\<close>

fun parse_embedding :: "raw_embedding \<Rightarrow> real list option" where
  "parse_embedding EmbNull = None"
| "parse_embedding (EmbArray v) = Some v"
| "parse_embedding (EmbText None) = None"
| "parse_embedding (EmbText (Some v)) = Some v"

fun parse_metadata :: "raw_metadata \<Rightarrow> search_error + string" where
  "parse_metadata MetaFalsy = Inr ''{}''"
| "parse_metadata (MetaText None) = Inl MetadataSyntax"
| "parse_metadata (MetaText (Some j)) = Inr j"

text \<open>The callback of \<^verbatim>\<open>messages.map\<close>: the similarity is computed before the metadata is parsed.\<close>

definition scoreMessage :: "real list \<Rightarrow> message_row \<Rightarrow> search_error + scored_message" where
  "scoreMessage queryEmbedding msg =
     (let embedding = parse_embedding (row_embedding msg)
      in case (case embedding of
                 Some e \<Rightarrow> cosineSimilarity queryEmbedding e
               | None \<Rightarrow> Inr 0) of
           Inl err \<Rightarrow> Inl err
         | Inr sim \<Rightarrow>
             (case parse_metadata (row_metadata msg) of
                Inl err \<Rightarrow> Inl err
              | Inr meta \<Rightarrow>
                  Inr \<lparr> sm_id = row_id msg, sm_sessionId = row_session_id msg,
                        sm_text = row_content msg, sm_sender = row_role msg,
                        sm_timestamp = row_created_at msg, sm_metadata = meta,
                        similarity = sim, hasEmbedding = (embedding \<noteq> None) \<rparr>))"

text \<open>\<^verbatim>\<open>messages.map(...)\<close>, front to back; the first callback that throws ends the map.\<close>

fun scoreAll :: "real list \<Rightarrow> message_row list \<Rightarrow> search_error + scored_message list" where
  "scoreAll q [] = Inr []"
| "scoreAll q (m # ms) =
     (case scoreMessage q m of
        Inl err \<Rightarrow> Inl err
      | Inr s \<Rightarrow> (case scoreAll q ms of Inl err \<Rightarrow> Inl err | Inr ss \<Rightarrow> Inr (s # ss)))"

text \<open>\<^verbatim>\<open>.sort((a, b) => b.similarity - a.similarity)\<close>: a stable sort, highest similarity first.\<close>

definition sort_by_similarity :: "scored_message list \<Rightarrow> scored_message list" where
  "sort_by_similarity ms = sort_key (\<lambda>m. - similarity m) ms"

definition falsy_string :: "string option \<Rightarrow> bool" where
  "falsy_string s = (s = None \<or> s = Some [])"

subsection \<open>searchMessages\<close>

text \<open>The defaults of the destructured payload: they apply when the field is absent.\<close>

definition limit_of :: "search_payload \<Rightarrow> int" where
  "limit_of payload = (case p_limit payload of None \<Rightarrow> 5 | Some l \<Rightarrow> l)"

definition minSimilarity_of :: "search_payload \<Rightarrow> real" where
  "minSimilarity_of payload = (case p_minSimilarity payload of None \<Rightarrow> 0.5 | Some s \<Rightarrow> s)"

definition includeRecent_of :: "search_payload \<Rightarrow> int" where
  "includeRecent_of payload = (case p_includeRecent payload of None \<Rightarrow> 3 | Some r \<Rightarrow> r)"

text \<open>
  The two awaited collaborators are parameters: \<open>generateEmbedding\<close> gives the query's
  vector or fails, and \<open>query_rows\<close> gives the session's rows, newest first, or fails.
\<close>

definition searchMessages ::
  "(string \<Rightarrow> real list option) \<Rightarrow> (string \<Rightarrow> message_row list option) \<Rightarrow>
   search_payload \<Rightarrow> search_error + search_result" where
  "searchMessages generateEmbedding query_rows payload =
     (let limit = limit_of payload;
          minSimilarity = minSimilarity_of payload;
          includeRecent = includeRecent_of payload
      in if falsy_string (p_sessionId payload) \<or> falsy_string (p_query payload)
         then Inl RequiredParams
         else
           (case generateEmbedding (the (p_query payload)) of
              None \<Rightarrow> Inl EmbeddingFailed
            | Some queryEmbedding \<Rightarrow>
                (case query_rows (the (p_sessionId payload)) of
                   None \<Rightarrow> Inl QueryFailed
                 | Some rows \<Rightarrow>
                     if rows = [] then
                       Inr \<lparr> messages = [], count = 0,
                             searchQuery = the (p_query payload),
                             search_method = ''semantic'', stats = None \<rparr>
                     else
                       (case scoreAll queryEmbedding rows of
                          Inl err \<Rightarrow> Inl err
                        | Inr scoredMessages \<Rightarrow>
                            (let recentMessages = js_slice 0 includeRecent scoredMessages;
                                 semanticMatches =
                                   js_slice 0 (limit - includeRecent)
                                     (sort_by_similarity
                                        (filter (\<lambda>msg. similarity msg \<ge> minSimilarity)
                                           (js_slice_from includeRecent scoredMessages)));
                                 combinedMessages =
                                   map (\<lambda>msg. (msg, Recent)) recentMessages @
                                   map (\<lambda>msg. (msg, Semantic)) semanticMatches
                             in Inr \<lparr> messages = combinedMessages,
                                      count = length combinedMessages,
                                      searchQuery = the (p_query payload),
                                      search_method = ''semantic'',
                                      stats = Some \<lparr> totalMessages = length rows,
                                                     recentCount = length recentMessages,
                                                     semanticCount = length semanticMatches,
                                                     messagesWithEmbeddings =
                                                       length (filter hasEmbedding scoredMessages) \<rparr> \<rparr>)))))"

section \<open>Context extraction: \<^verbatim>\<open>services/contextExtractor.cjs\<close>\<close>

subsection \<open>String built-ins\<close>

text \<open>
  Strings are byte strings. \<^verbatim>\<open>toLowerCase\<close> and \<^verbatim>\<open>trim\<close> are modelled on ASCII;
  \<^verbatim>\<open>includes\<close> is the search for a contiguous substring.
\<close>

definition lower_char :: "char \<Rightarrow> char" where
  "lower_char c =
     (let n = (of_char c :: nat) in if 65 \<le> n \<and> n \<le> 90 then char_of (n + 32) else c)"

definition toLowerCase :: "string \<Rightarrow> string" where
  "toLowerCase s = map lower_char s"

definition is_space :: "char \<Rightarrow> bool" where
  "is_space c = ((of_char c :: nat) \<in> {9, 10, 11, 12, 13, 32})"

definition trim :: "string \<Rightarrow> string" where
  "trim s = rev (dropWhile is_space (rev (dropWhile is_space s)))"

fun str_includes :: "string \<Rightarrow> string \<Rightarrow> bool" where
  "str_includes [] needle = (needle = [])"
| "str_includes (c # cs) needle = (take (length needle) (c # cs) = needle \<or> str_includes cs needle)"

subsection \<open>Regular expressions\<close>

text \<open>
  \<^verbatim>\<open>String.prototype.match\<close> on the four regular expressions of the extractor is a
  parameter: for each of them a function from the text to the captured groups of the first
  match, \<open>None\<close> when \<^verbatim>\<open>match\<close> returns \<^verbatim>\<open>null\<close>.
\<close>

record matcher =
  m_favorite :: "string \<Rightarrow> (string \<times> string) option"
    \<comment> \<open>\<^verbatim>\<open>/my (?:favorite|fav) (\w+) is ([\w\s]+?)(?:\.|$|,)/i\<close>\<close>
  m_name :: "string \<Rightarrow> string option"
    \<comment> \<open>\<^verbatim>\<open>/my name is (\w+)/i\<close>\<close>
  m_love :: "string \<Rightarrow> string option"
    \<comment> \<open>\<^verbatim>\<open>/I (?:love|like|enjoy|prefer) ([\w\s]+?)(?:\.|$|,)/i\<close>\<close>
  m_from :: "string \<Rightarrow> string option"
    \<comment> \<open>\<^verbatim>\<open>/I(?:'m| am) from ([\w\s]+?)(?:\.|$|,)/i\<close>\<close>

subsection \<open>Facts, entities and the remote reply\<close>

datatype extract_error =
    RequestTimeout   \<comment> \<open>the 5 second timeout of the request\<close>
  | RequestFailed    \<comment> \<open>any other rejection of \<^verbatim>\<open>axios.post\<close>\<close>
  | TypeError        \<comment> \<open>a property read or a method call on \<^verbatim>\<open>undefined\<close>\<close>

record fact =
  fact_key :: string
  fact_value :: string
  fact_confidence :: real

text \<open>An entity of the remote payload; an absent field is \<open>None\<close>.\<close>

record raw_entity =
  raw_type :: "string option"
  raw_text :: "string option"
  raw_value :: "string option"
  raw_confidence :: "real option"
  raw_start :: "int option"
  raw_end :: "int option"

text \<open>An entity candidate; \<open>ent_value\<close> is \<open>None\<close> when it is \<^verbatim>\<open>undefined\<close>.\<close>

record entity =
  ent_type :: string
  ent_value :: "string option"
  ent_confidence :: real
  startPos :: "int option"
  endPos :: "int option"

text \<open>
  \<^verbatim>\<open>response.data?.data?.entities\<close>: falsy or absent, a truthy value that is not an
  array (it has no \<^verbatim>\<open>map\<close>), or an array.
\<close>

datatype entities_field =
    EntitiesMissing
  | EntitiesNotArray
  | EntitiesArray "raw_entity list"

record phi4_response =
  resp_status :: "string option"
  resp_entities :: entities_field

datatype phi4_outcome =
    Timeout
  | TransportError
  | Responded phi4_response

record extraction_result =
  facts :: "fact list"
  entities :: "entity list"
  sessionId :: string
  extractedAt :: string
  extraction_method :: string

subsection \<open>normalizeEntityType\<close>

definition typeMap :: "(string \<times> string) list" where
  "typeMap =
     [(''PERSON'', ''person''), (''ORGANIZATION'', ''organization''), (''ORG'', ''organization''),
      (''LOCATION'', ''place''), (''LOC'', ''place''), (''GPE'', ''place''),
      (''DATE'', ''date''), (''TIME'', ''time''), (''PRODUCT'', ''product''),
      (''EVENT'', ''event''), (''FOOD'', ''food''), (''WORK_OF_ART'', ''media'')]"

text \<open>Raw types are taken not to name a member of \<^verbatim>\<open>Object.prototype\<close>.\<close>

definition normalizeEntityType :: "string \<Rightarrow> string" where
  "normalizeEntityType phi4Type =
     (case map_of typeMap phi4Type of Some t \<Rightarrow> t | None \<Rightarrow> toLowerCase phi4Type)"

subsection \<open>extractEntitiesViaPhi4\<close>

text \<open>\<^verbatim>\<open>entity.text || entity.value\<close>: the empty string is falsy.\<close>

definition or_string :: "string option \<Rightarrow> string option \<Rightarrow> string option" where
  "or_string a b = (case a of None \<Rightarrow> b | Some s \<Rightarrow> if s = [] then b else Some s)"

text \<open>\<^verbatim>\<open>entity.confidence || 0.8\<close>: zero is falsy.\<close>

definition or_confidence :: "real option \<Rightarrow> real" where
  "or_confidence c = (case c of None \<Rightarrow> 0.8 | Some x \<Rightarrow> if x = 0 then 0.8 else x)"

text \<open>
  The callback of \<^verbatim>\<open>entities.map\<close>. With no string at \<^verbatim>\<open>entity.type\<close>,
  \<^verbatim>\<open>phi4Type.toLowerCase()\<close> throws.
\<close>

definition mapEntity :: "raw_entity \<Rightarrow> extract_error + entity" where
  "mapEntity e =
     (case raw_type e of
        None \<Rightarrow> Inl TypeError
      | Some t \<Rightarrow>
          Inr \<lparr> ent_type = normalizeEntityType t,
                ent_value = or_string (raw_text e) (raw_value e),
                ent_confidence = or_confidence (raw_confidence e),
                startPos = raw_start e, endPos = raw_end e \<rparr>)"

fun mapEntities :: "raw_entity list \<Rightarrow> extract_error + entity list" where
  "mapEntities [] = Inr []"
| "mapEntities (e # es) =
     (case mapEntity e of
        Inl err \<Rightarrow> Inl err
      | Inr c \<Rightarrow> (case mapEntities es of Inl err \<Rightarrow> Inl err | Inr cs \<Rightarrow> Inr (c # cs)))"

text \<open>The body of the \<^verbatim>\<open>try\<close> block, given how the request ended.\<close>

definition phi4_try :: "phi4_outcome \<Rightarrow> extract_error + entity list" where
  "phi4_try outcome =
     (case outcome of
        Timeout \<Rightarrow> Inl RequestTimeout
      | TransportError \<Rightarrow> Inl RequestFailed
      | Responded r \<Rightarrow>
          if resp_status r = Some ''ok'' \<and> resp_entities r \<noteq> EntitiesMissing
          then (case resp_entities r of
                  EntitiesArray es \<Rightarrow> mapEntities es
                | _ \<Rightarrow> Inl TypeError)
          else Inr [])"

text \<open>The \<^verbatim>\<open>catch\<close> block returns the empty array.\<close>

definition extractEntitiesViaPhi4 :: "phi4_outcome \<Rightarrow> entity list" where
  "extractEntitiesViaPhi4 outcome =
     (case phi4_try outcome of Inl err \<Rightarrow> [] | Inr es \<Rightarrow> es)"

text \<open>
  The replies on which the \<^verbatim>\<open>try\<close> block reaches \<^verbatim>\<open>entities.map\<close> and no callback
  throws: status \<^verbatim>\<open>ok\<close>, an array of entities, and a string at every
  \<^verbatim>\<open>entity.type\<close>. The source asks nothing else of a reply.
\<close>

definition typed_reply :: "phi4_response \<Rightarrow> bool" where
  "typed_reply r =
     (resp_status r = Some ''ok'' \<and>
      (case resp_entities r of
         EntitiesArray es \<Rightarrow> list_all (\<lambda>e. raw_type e \<noteq> None) es
       | _ \<Rightarrow> False))"

text \<open>
  The expected shape in the words of the interface description: the status flag and a
  sequence of entities \<^verbatim>\<open>{ type, text|value, confidence?, start?, end? }\<close>, so every
  entity has a type and a text or a value. It is stated to compare the source with it.
\<close>

definition expected_shape :: "phi4_response \<Rightarrow> bool" where
  "expected_shape r =
     (resp_status r = Some ''ok'' \<and>
      (case resp_entities r of
         EntitiesArray es \<Rightarrow>
           list_all (\<lambda>e. raw_type e \<noteq> None \<and> (raw_text e \<noteq> None \<or> raw_value e \<noteq> None)) es
       | _ \<Rightarrow> False))"

subsection \<open>extractQuickFacts\<close>

definition quickFactPatterns :: "matcher \<Rightarrow> (string \<Rightarrow> fact option) list" where
  "quickFactPatterns M =
     [\<lambda>text. (case m_favorite M text of
                None \<Rightarrow> None
              | Some (g1, g2) \<Rightarrow>
                  Some \<lparr> fact_key = ''favorite_'' @ g1, fact_value = trim g2,
                         fact_confidence = 0.9 \<rparr>),
      \<lambda>text. (case m_name M text of
                None \<Rightarrow> None
              | Some g1 \<Rightarrow>
                  Some \<lparr> fact_key = ''user_name'', fact_value = g1,
                         fact_confidence = 0.95 \<rparr>)]"

fun quick_loop :: "(string \<Rightarrow> fact option) list \<Rightarrow> string \<Rightarrow> fact list \<Rightarrow> fact list" where
  "quick_loop [] text acc = acc"
| "quick_loop (pattern # ps) text acc =
     quick_loop ps text (case pattern text of None \<Rightarrow> acc | Some f \<Rightarrow> acc @ [f])"

definition extractQuickFacts :: "matcher \<Rightarrow> string \<Rightarrow> fact list" where
  "extractQuickFacts M text = quick_loop (quickFactPatterns M) text []"

subsection \<open>extractFactsViaLLM\<close>

text \<open>
  \<^verbatim>\<open>entities.find(callback)\<close> with a callback that may throw: the entities are tried in
  order, up to the first one the callback accepts.
\<close>

fun find_entity :: "(entity \<Rightarrow> extract_error + bool) \<Rightarrow> entity list \<Rightarrow> extract_error + entity option" where
  "find_entity f [] = Inr None"
| "find_entity f (e # es) =
     (case f e of
        Inl err \<Rightarrow> Inl err
      | Inr True \<Rightarrow> Inr (Some e)
      | Inr False \<Rightarrow> find_entity f es)"

text \<open>\<^verbatim>\<open>value.toLowerCase().includes(e.value.toLowerCase())\<close>\<close>

definition value_includes :: "string \<Rightarrow> entity \<Rightarrow> extract_error + bool" where
  "value_includes v e =
     (case ent_value e of
        None \<Rightarrow> Inl TypeError
      | Some ev \<Rightarrow> Inr (str_includes (toLowerCase v) (toLowerCase ev)))"

definition place_includes :: "string \<Rightarrow> entity \<Rightarrow> extract_error + bool" where
  "place_includes location e =
     (if ent_type e = ''place'' then value_includes location e else Inr False)"

text \<open>
  The two templates, in the order of the source. An entity that \<^verbatim>\<open>find\<close> returns was
  accepted by the callback, so its value is a string and \<open>the\<close> reads it.
\<close>

definition extractFactsViaLLM :: "matcher \<Rightarrow> string \<Rightarrow> entity list \<Rightarrow> extract_error + fact list" where
  "extractFactsViaLLM M text ents =
     (case (case m_love M text of
              None \<Rightarrow> Inr []
            | Some g1 \<Rightarrow>
                (case find_entity (value_includes (trim g1)) ents of
                   Inl err \<Rightarrow> Inl err
                 | Inr None \<Rightarrow> Inr []
                 | Inr (Some matchingEntity) \<Rightarrow>
                     Inr [\<lparr> fact_key = ''likes_'' @ ent_type matchingEntity,
                            fact_value = the (ent_value matchingEntity),
                            fact_confidence = 0.85 \<rparr>])) of
        Inl err \<Rightarrow> Inl err
      | Inr facts1 \<Rightarrow>
          (case m_from M text of
             None \<Rightarrow> Inr facts1
           | Some g1 \<Rightarrow>
               (case find_entity (place_includes (trim g1)) ents of
                  Inl err \<Rightarrow> Inl err
                | Inr None \<Rightarrow> Inr facts1
                | Inr (Some locationEntity) \<Rightarrow>
                    Inr (facts1 @
                         [\<lparr> fact_key = ''home_location'',
                            fact_value = the (ent_value locationEntity),
                            fact_confidence = 0.9 \<rparr>]))))"

subsection \<open>extract\<close>

text \<open>
  \<^verbatim>\<open>new Map(entries)\<close> keeps the keys in the order of their first insertion and the
  value of their last one: each entry updates its key in place or is appended.
\<close>

definition js_Map :: "('k \<times> 'v) list \<Rightarrow> ('k \<times> 'v) list" where
  "js_Map entries = foldl (\<lambda>m (k, v). AList.update k v m) [] entries"

definition uniqueFacts :: "fact list \<Rightarrow> fact list" where
  "uniqueFacts allFacts = map snd (js_Map (map (\<lambda>f. (fact_key f, f)) allFacts))"

text \<open>
  The body of the \<^verbatim>\<open>try\<close> block. The remote service is the parameter \<open>phi4\<close>, from
  the text to how the request ends; \<open>now\<close> is \<^verbatim>\<open>new Date().toISOString()\<close>.
\<close>

definition extract_try ::
  "matcher \<Rightarrow> (string \<Rightarrow> phi4_outcome) \<Rightarrow> string \<Rightarrow> string \<Rightarrow> string \<Rightarrow>
   extract_error + extraction_result" where
  "extract_try M phi4 now text sid =
     (let quickFacts = extractQuickFacts M text;
          ents = extractEntitiesViaPhi4 (phi4 text)
      in case extractFactsViaLLM M text ents of
           Inl err \<Rightarrow> Inl err
         | Inr llmFacts \<Rightarrow>
             (let allFacts = quickFacts @ llmFacts
              in Inr \<lparr> facts = uniqueFacts allFacts, entities = ents, sessionId = sid,
                       extractedAt = now, extraction_method = ''phi4_llm'' \<rparr>))"

text \<open>The method \<^verbatim>\<open>extract\<close> of the class.\<close>

definition extractContext ::
  "matcher \<Rightarrow> (string \<Rightarrow> phi4_outcome) \<Rightarrow> string \<Rightarrow> string \<Rightarrow> string \<Rightarrow> extraction_result" where
  "extractContext M phi4 now text sid =
     (case extract_try M phi4 now text sid of
        Inr result \<Rightarrow> result
      | Inl err \<Rightarrow>
          \<lparr> facts = extractQuickFacts M text, entities = [], sessionId = sid,
            extractedAt = now, extraction_method = ''fallback'' \<rparr>)"

section \<open>Entity store: \<^verbatim>\<open>src/handlers/contextHandler.cjs\<close>\<close>

text \<open>
  The table \<^verbatim>\<open>session_entities\<close> is the list of its rows in the order of their
  insertion. Timestamps are integers. \<^verbatim>\<open>mention_count\<close> is an unbounded integer: a
  range error of the database is one of the failures of a statement.
\<close>

record entity_row =
  e_id :: string
  e_session_id :: string
  e_entity_type :: string
  e_entity_value :: string
  e_first_mentioned_at :: int
  e_last_mentioned_at :: int
  e_mention_count :: int
  e_metadata :: string

text \<open>
  The object that the class keeps as \<^verbatim>\<open>this.db\<close>. The methods of the class call it in
  the style of the sqlite3 package: \<^verbatim>\<open>db.get(sql, [params], callback)\<close>,
  \<^verbatim>\<open>db.run(sql, [params], callback)\<close>. The repository constructs the class on the
  connection of the duckdb package (\<^verbatim>\<open>new duckdb.Database(path).connect()\<close> in
  \<^verbatim>\<open>database/connection.cjs\<close>, handed over in \<^verbatim>\<open>index.cjs\<close>), which has the
  methods \<^verbatim>\<open>all\<close>, \<^verbatim>\<open>run\<close>, \<^verbatim>\<open>exec\<close>, \<^verbatim>\<open>each\<close> and \<^verbatim>\<open>prepare\<close> and no method
  \<^verbatim>\<open>get\<close>. The package is not part of the sources; which of the two interfaces the
  object has is a parameter.
\<close>

datatype db_api =
    Sqlite3Api
  | DuckdbApi

text \<open>The connection that \<^verbatim>\<open>index.cjs\<close> passes to the constructor.\<close>

definition repository_connection :: db_api where
  "repository_connection = DuckdbApi"

text \<open>
  What one call of \<^verbatim>\<open>addEntity\<close> takes from its environment: the database's
  \<^verbatim>\<open>CURRENT_TIMESTAMP\<close>, the clock of \<^verbatim>\<open>new Date()\<close>, the identifier
  generated for a new row, and whether the \<^verbatim>\<open>SELECT\<close> and the
  \<^verbatim>\<open>UPDATE\<close> or \<^verbatim>\<open>INSERT\<close> fail.
\<close>

record db_call =
  db_now :: int
  js_now :: int
  new_id :: string
  get_err :: bool
  run_err :: bool

datatype db_error =
    DbError            \<comment> \<open>the \<^verbatim>\<open>err\<close> that a callback receives\<close>
  | GetNotAFunction    \<comment> \<open>the TypeError of calling \<^verbatim>\<open>this.db.get\<close> where there is none\<close>

text \<open>The object the promise resolves to: the spread of the row found, or the new entity.\<close>

datatype add_result =
    Updated entity_row
  | Inserted string string string string int string

definition matches :: "string \<Rightarrow> string \<Rightarrow> string \<Rightarrow> entity_row \<Rightarrow> bool" where
  "matches sid ty v r =
     (e_session_id r = sid \<and> e_entity_type r = ty \<and> e_entity_value r = v)"

text \<open>
  The first statement of the promise's executor is the call of \<^verbatim>\<open>this.db.get\<close>; where
  the object has no such method the call throws and the promise is rejected. Otherwise
  \<^verbatim>\<open>db.get\<close> yields the first row of the selection. \<^verbatim>\<open>id\<close> is the primary key: an
  \<^verbatim>\<open>INSERT\<close> of an identifier that the table holds fails.
\<close>

definition addEntity ::
  "db_api \<Rightarrow> db_call \<Rightarrow> entity_row list \<Rightarrow> string \<Rightarrow> string \<Rightarrow> string \<Rightarrow> string \<Rightarrow>
   (db_error + add_result) \<times> entity_row list" where
  "addEntity api env db sid entityType entityValue metadataStr =
     (if api = DuckdbApi then (Inl GetNotAFunction, db)
      else if get_err env then (Inl DbError, db)
      else
        (case find (matches sid entityType entityValue) db of
           Some existing \<Rightarrow>
             if run_err env then (Inl DbError, db)
             else
               (Inr (Updated (existing\<lparr> e_mention_count := e_mention_count existing + 1,
                                         e_last_mentioned_at := js_now env \<rparr>)),
                map (\<lambda>r. if e_id r = e_id existing
                          then r\<lparr> e_mention_count := e_mention_count r + 1,
                                 e_last_mentioned_at := db_now env \<rparr>
                          else r) db)
         | None \<Rightarrow>
             if run_err env \<or> new_id env \<in> set (map e_id db) then (Inl DbError, db)
             else
               (Inr (Inserted (new_id env) sid entityType entityValue 1 metadataStr),
                db @ [\<lparr> e_id = new_id env, e_session_id = sid, e_entity_type = entityType,
                        e_entity_value = entityValue, e_first_mentioned_at = db_now env,
                        e_last_mentioned_at = db_now env, e_mention_count = 1,
                        e_metadata = metadataStr \<rparr>])))"

text \<open>A call with its arguments, and calls made one after the other, each awaited.\<close>

record entity_call =
  c_env :: db_call
  c_sessionId :: string
  c_entityType :: string
  c_entityValue :: string
  c_metadata :: string

definition call_for :: "string \<Rightarrow> string \<Rightarrow> string \<Rightarrow> entity_call \<Rightarrow> bool" where
  "call_for sid ty v c = (c_sessionId c = sid \<and> c_entityType c = ty \<and> c_entityValue c = v)"

definition addEntity_call ::
  "db_api \<Rightarrow> entity_call \<Rightarrow> entity_row list \<Rightarrow> (db_error + add_result) \<times> entity_row list" where
  "addEntity_call api c db =
     addEntity api (c_env c) db (c_sessionId c) (c_entityType c) (c_entityValue c) (c_metadata c)"

fun run_calls ::
  "db_api \<Rightarrow> entity_call list \<Rightarrow> entity_row list \<Rightarrow>
   (db_error + add_result) list \<times> entity_row list" where
  "run_calls api [] db = ([], db)"
| "run_calls api (c # cs) db =
     (case addEntity_call api c db of
        (res, db1) \<Rightarrow> (case run_calls api cs db1 of (ress, db2) \<Rightarrow> (res # ress, db2)))"

definition isr :: "'a + 'b \<Rightarrow> bool" where
  "isr x = (\<not> isl x)"

text \<open>
  The \<^verbatim>\<open>CURRENT_TIMESTAMP\<close>s of the calls for one triple that succeeded, in the order
  of the calls.
\<close>

definition success_times ::
  "string \<Rightarrow> string \<Rightarrow> string \<Rightarrow> entity_call list \<Rightarrow> (db_error + add_result) list \<Rightarrow> int list" where
  "success_times sid ty v calls results =
     map (\<lambda>(c, res). db_now (c_env c))
       (filter (\<lambda>(c, res). call_for sid ty v c \<and> isr res) (zip calls results))"

section \<open>Concrete inputs\<close>

text \<open>Rows, payloads and collaborators on which the functions are run below.\<close>

definition example_row :: "string \<Rightarrow> raw_embedding \<Rightarrow> message_row" where
  "example_row i emb =
     \<lparr> row_id = i, row_session_id = ''s1'', row_content = ''hello'', row_role = ''user'',
       row_created_at = ''2025-10-22T17:00:00Z'', row_metadata = MetaFalsy,
       row_embedding = emb \<rparr>"

text \<open>What the scoring callback makes of such a row.\<close>

definition example_scored :: "string \<Rightarrow> real \<Rightarrow> bool \<Rightarrow> scored_message" where
  "example_scored i s b =
     \<lparr> sm_id = i, sm_sessionId = ''s1'', sm_text = ''hello'', sm_sender = ''user'',
       sm_timestamp = ''2025-10-22T17:00:00Z'', sm_metadata = ''{}'',
       similarity = s, hasEmbedding = b \<rparr>"

definition example_payload :: "int option \<Rightarrow> real option \<Rightarrow> int option \<Rightarrow> search_payload" where
  "example_payload l s r =
     \<lparr> p_sessionId = Some ''s1'', p_query = Some ''coffee'', p_limit = l,
       p_minSimilarity = s, p_includeRecent = r \<rparr>"

text \<open>An embedding service that answers every text with one vector, and a session's rows.\<close>

definition const_embedding :: "real list \<Rightarrow> string \<Rightarrow> real list option" where
  "const_embedding q text = Some q"

definition const_rows :: "message_row list \<Rightarrow> string \<Rightarrow> message_row list option" where
  "const_rows rows sid = Some rows"

text \<open>The identifier, the embedding flag and the reason of each entry of a result.\<close>

definition result_tags :: "search_result \<Rightarrow> (string \<times> bool \<times> reason) list" where
  "result_tags res = map (\<lambda>(m, r). (sm_id m, hasEmbedding m, r)) (messages res)"

text \<open>
  The four regular expressions on the texts \<^verbatim>\<open>I love pizza\<close> (only the third one
  matches, capturing \<^verbatim>\<open>pizza\<close>) and \<^verbatim>\<open>hello\<close> (none matches).
\<close>

definition pizza_matcher :: matcher where
  "pizza_matcher =
     \<lparr> m_favorite = (\<lambda>text. None), m_name = (\<lambda>text. None),
       m_love = (\<lambda>text. if text = ''I love pizza'' then Some ''pizza'' else None),
       m_from = (\<lambda>text. None) \<rparr>"

definition service_timeout :: "string \<Rightarrow> phi4_outcome" where
  "service_timeout text = Timeout"

text \<open>A reply with one entity that has a type and a confidence of 0, but no text and no value.\<close>

definition bare_entity :: raw_entity where
  "bare_entity =
     \<lparr> raw_type = Some ''FOOD'', raw_text = None, raw_value = None,
       raw_confidence = Some 0, raw_start = None, raw_end = None \<rparr>"

definition service_bare :: "string \<Rightarrow> phi4_outcome" where
  "service_bare text =
     Responded \<lparr> resp_status = Some ''ok'', resp_entities = EntitiesArray [bare_entity] \<rparr>"

text \<open>A reply with the entity \<^verbatim>\<open>pizza\<close> of type \<^verbatim>\<open>FOOD\<close>.\<close>

definition pizza_entity :: raw_entity where
  "pizza_entity =
     \<lparr> raw_type = Some ''FOOD'', raw_text = Some ''pizza'', raw_value = None,
       raw_confidence = Some 0.7, raw_start = Some 7, raw_end = Some 12 \<rparr>"

definition service_pizza :: "string \<Rightarrow> phi4_outcome" where
  "service_pizza text =
     Responded \<lparr> resp_status = Some ''ok'', resp_entities = EntitiesArray [pizza_entity] \<rparr>"

definition example_fact :: "string \<Rightarrow> string \<Rightarrow> real \<Rightarrow> fact" where
  "example_fact k v c = \<lparr> fact_key = k, fact_value = v, fact_confidence = c \<rparr>"

text \<open>A successful call for the entity \<^verbatim>\<open>(s1, person, Ada)\<close> at a time, with an identifier.\<close>

definition ada_call :: "int \<Rightarrow> string \<Rightarrow> entity_call" where
  "ada_call t i =
     \<lparr> c_env = \<lparr> db_now = t, js_now = t, new_id = i, get_err = False, run_err = False \<rparr>,
       c_sessionId = ''s1'', c_entityType = ''person'', c_entityValue = ''Ada'',
       c_metadata = ''{}'' \<rparr>"

section \<open>The similarity ranker\<close>

lemma cosine_loop_sums:
  "length a = length b \<Longrightarrow>
   cosine_loop a b (d, na, nb) =
     (d + (\<Sum>(x, y)\<leftarrow>zip a b. x * y), na + (\<Sum>x\<leftarrow>a. x * x), nb + (\<Sum>y\<leftarrow>b. y * y))"
proof (induction a b "(d, na, nb)" arbitrary: d na nb rule: cosine_loop.induct)
  case (1 a as b bs dotProduct normA normB)
  then show ?case by (simp add: algebra_simps)
qed simp_all

lemma cosineSimilarity_eq:
  "length a = length b \<Longrightarrow>
   cosineSimilarity a b =
     (if magnitude a = 0 \<or> magnitude b = 0 then Inr 0
      else Inr ((\<Sum>(x, y)\<leftarrow>zip a b. x * y) / (magnitude a * magnitude b)))"
  by (simp add: cosineSimilarity_def cosine_loop_sums magnitude_def Let_def)

lemma sum_sq_nonneg: "0 \<le> (\<Sum>x\<leftarrow>v. x * (x::real))"
  by (induction v) simp_all

lemma zip_self_sum: "(\<Sum>(x, y)\<leftarrow>zip v v. x * y) = (\<Sum>x\<leftarrow>v. x * (x::real))"
  by (induction v) simp_all

text \<open>
  In exact arithmetic a vector of non-zero magnitude has similarity 1 with itself.
\<close>

lemma cosineSimilarity_self_exact: "magnitude v \<noteq> 0 \<Longrightarrow> cosineSimilarity v v = Inr 1"
  using sum_sq_nonneg [of v]
  by (simp add: cosineSimilarity_eq zip_self_sum magnitude_def)



subsection \<open>Double precision\<close>































section \<open>The semantic retriever\<close>

lemma js_slice_subset: "set (js_slice a b xs) \<subseteq> set xs"
  unfolding js_slice_def Let_def
  by (meson set_take_subset set_drop_subset subset_trans)

lemma js_slice_from_subset: "set (js_slice_from a xs) \<subseteq> set xs"
  by (simp add: js_slice_from_def js_slice_subset)

lemma js_slice_0_take: "0 \<le> k \<Longrightarrow> js_slice 0 k xs = take (nat k) xs"
  by (simp add: js_slice_def Let_def min_def)

lemma js_slice_0_0: "js_slice 0 0 xs = []"
  by (simp add: js_slice_def)

lemma js_slice_from_drop: "0 \<le> k \<Longrightarrow> js_slice_from k xs = drop (nat k) xs"
  by (auto simp add: js_slice_from_def js_slice_def Let_def min_def)

lemma scoreMessage_Inr:
  "scoreMessage q m = Inr s \<Longrightarrow>
   hasEmbedding s = (parse_embedding (row_embedding m) \<noteq> None) \<and>
   (parse_embedding (row_embedding m) = None \<longrightarrow> similarity s = 0) \<and>
   sm_id s = row_id m"
  by (auto simp: scoreMessage_def Let_def split: option.splits sum.splits)

lemma scoreAll_Inr:
  "scoreAll q rows = Inr ss \<Longrightarrow>
   length ss = length rows \<and> (\<forall>i<length rows. scoreMessage q (rows ! i) = Inr (ss ! i))"
proof (induction rows arbitrary: ss)
  case Nil
  then show ?case by simp
next
  case (Cons m ms)
  then show ?case
    by (auto split: sum.splits simp: nth_Cons split: nat.splits)
qed

lemma scoreAll_similarity_0:
  assumes "scoreAll q rows = Inr ss" "s \<in> set ss" "\<not> hasEmbedding s"
  shows "similarity s = 0"
proof -
  from assms(2) obtain i where i: "i < length ss" "ss ! i = s"
    by (auto simp: in_set_conv_nth)
  with scoreAll_Inr [OF assms(1)] have "scoreMessage q (rows ! i) = Inr s" by auto
  from scoreMessage_Inr [OF this] assms(3) show ?thesis by auto
qed

lemma searchMessages_Inr:
  assumes "searchMessages g qr p = Inr res"
  shows "\<exists>qe rows. g (the (p_query p)) = Some qe \<and> qr (the (p_sessionId p)) = Some rows \<and>
           ((rows = [] \<and> messages res = []) \<or>
            (\<exists>scored. scoreAll qe rows = Inr scored \<and>
               messages res =
                 map (\<lambda>msg. (msg, Recent)) (js_slice 0 (includeRecent_of p) scored) @
                 map (\<lambda>msg. (msg, Semantic))
                   (js_slice 0 (limit_of p - includeRecent_of p)
                      (sort_by_similarity
                         (filter (\<lambda>msg. similarity msg \<ge> minSimilarity_of p)
                            (js_slice_from (includeRecent_of p) scored))))))"
  using assms
  by (auto simp: searchMessages_def Let_def split: if_splits option.splits sum.splits)


lemma scoreMessage_mismatch:
  "parse_embedding (row_embedding m) = Some e \<Longrightarrow> length e \<noteq> length q \<Longrightarrow>
   scoreMessage q m = Inl VectorsLength"
  by (auto simp: scoreMessage_def cosineSimilarity_def)

lemma cosineSimilarity_Inl: "cosineSimilarity a b = Inl err \<Longrightarrow> err = VectorsLength"
  by (auto simp: cosineSimilarity_def Let_def split: if_splits prod.splits)

lemma parse_metadata_Inl: "parse_metadata md = Inl err \<Longrightarrow> err = MetadataSyntax"
  by (cases md rule: parse_metadata.cases) simp_all

lemma scoreMessage_Inl:
  "scoreMessage q m = Inl err \<Longrightarrow>
   err = VectorsLength \<or> parse_metadata (row_metadata m) = Inl MetadataSyntax"
  by (auto simp: scoreMessage_def Let_def split: option.splits sum.splits
           dest: cosineSimilarity_Inl parse_metadata_Inl)

lemma scoreAll_mismatch:
  assumes "m \<in> set rows" "parse_embedding (row_embedding m) = Some e" "length e \<noteq> length q"
  shows "isl (scoreAll q rows)"
  using assms
proof (induction rows)
  case Nil
  then show ?case by simp
next
  case (Cons r rs)
  show ?case
  proof (cases "scoreMessage q r")
    case (Inl err)
    then show ?thesis by simp
  next
    case (Inr s)
    with Cons.prems scoreMessage_mismatch [of m e q] have "m \<in> set rs" by auto
    with Cons have "isl (scoreAll q rs)" by simp
    with Inr show ?thesis by (cases "scoreAll q rs") simp_all
  qed
qed

lemma scoreAll_Inl:
  "scoreAll q rows = Inl err \<Longrightarrow>
   err = VectorsLength \<or> (\<exists>r\<in>set rows. parse_metadata (row_metadata r) = Inl MetadataSyntax)"
proof (induction rows)
  case Nil
  then show ?case by simp
next
  case (Cons r rs)
  then show ?case
    by (auto split: sum.splits dest: scoreMessage_Inl)
qed

text \<open>
  Claim C10. When the session holds a row whose embedding parses to a vector of another
  length than the query's embedding, \<^verbatim>\<open>searchMessages\<close> throws: the whole search
  ends, the row is not skipped. Unless the metadata of some row fails to parse, what is
  thrown is the length error of \<^verbatim>\<open>cosineSimilarity\<close>.
\<close>

theorem searchMessages_length_mismatch_raises:
  assumes "\<not> falsy_string (p_sessionId p)" and "\<not> falsy_string (p_query p)"
    and "g (the (p_query p)) = Some qe"
    and "qr (the (p_sessionId p)) = Some rows"
    and "row \<in> set rows"
    and "parse_embedding (row_embedding row) = Some e"
    and "length e \<noteq> length qe"
  shows "isl (searchMessages g qr p) \<and>
         ((\<forall>r\<in>set rows. parse_metadata (row_metadata r) \<noteq> Inl MetadataSyntax) \<longrightarrow>
            searchMessages g qr p = Inl VectorsLength)"
proof -
  from assms(5) have ne: "rows \<noteq> []" by auto
  from scoreAll_mismatch [OF assms(5-7)] obtain err where err: "scoreAll qe rows = Inl err"
    by (cases "scoreAll qe rows") simp_all
  with assms(1-4) ne have s: "searchMessages g qr p = Inl err"
    by (simp add: searchMessages_def Let_def)
  from scoreAll_Inl [OF err] s show ?thesis by auto
qed

text \<open>
  Claim C2, amended. With a threshold \<^verbatim>\<open>minSimilarity\<close> above 0, an entry of the
  result that is the scored form of a row with no embedding, or with one that does not
  parse, carries the reason \<^verbatim>\<open>recent\<close>; with \<^verbatim>\<open>includeRecent\<close> at least 0 it
  stands among the first \<^verbatim>\<open>includeRecent\<close> entries.
\<close>

theorem semantic_needs_embedding:
  assumes "searchMessages g qr p = Inr res"
    and "g (the (p_query p)) = Some qe"
    and "0 < minSimilarity_of p"
    and "i < length (messages res)"
    and "scoreMessage qe row = Inr (fst (messages res ! i))"
    and "parse_embedding (row_embedding row) = None"
  shows "snd (messages res ! i) = Recent \<and>
         (0 \<le> includeRecent_of p \<longrightarrow> int i < includeRecent_of p)"
proof -
  from searchMessages_Inr [OF assms(1)] assms(2,4) obtain rows scored where
    sc: "scoreAll qe rows = Inr scored" and
    ms: "messages res =
           map (\<lambda>msg. (msg, Recent)) (js_slice 0 (includeRecent_of p) scored) @
           map (\<lambda>msg. (msg, Semantic))
             (js_slice 0 (limit_of p - includeRecent_of p)
                (sort_by_similarity
                   (filter (\<lambda>msg. similarity msg \<ge> minSimilarity_of p)
                      (js_slice_from (includeRecent_of p) scored))))"
    by auto
  define rec where "rec = js_slice 0 (includeRecent_of p) scored"
  define sem where "sem = js_slice 0 (limit_of p - includeRecent_of p)
                (sort_by_similarity
                   (filter (\<lambda>msg. similarity msg \<ge> minSimilarity_of p)
                      (js_slice_from (includeRecent_of p) scored)))"
  have ms': "messages res = map (\<lambda>msg. (msg, Recent)) rec @ map (\<lambda>msg. (msg, Semantic)) sem"
    using ms by (simp add: rec_def sem_def)
  let ?m = "fst (messages res ! i)"
  from scoreMessage_Inr [OF assms(5)] assms(6)
  have noemb: "\<not> hasEmbedding ?m" by simp
  have sem_props: "similarity s \<ge> minSimilarity_of p \<and> s \<in> set scored" if "s \<in> set sem" for s
  proof -
    from that
    have "s \<in> set (sort_by_similarity
                   (filter (\<lambda>msg. similarity msg \<ge> minSimilarity_of p)
                      (js_slice_from (includeRecent_of p) scored)))"
      unfolding sem_def by (rule set_mp [OF js_slice_subset])
    then show ?thesis
      using js_slice_from_subset [of "includeRecent_of p" scored]
      by (auto simp: sort_by_similarity_def)
  qed
  have in_rec: "i < length rec"
  proof (rule ccontr)
    assume "\<not> i < length rec"
    with assms(4) ms' have "?m \<in> set sem"
      by (auto simp: nth_append)
    from sem_props [OF this] scoreAll_similarity_0 [OF sc _ noemb] assms(3)
    show False by auto
  qed
  then have "snd (messages res ! i) = Recent"
    by (simp add: ms' nth_append)
  moreover have "int i < includeRecent_of p" if "0 \<le> includeRecent_of p"
    using in_rec that by (auto simp: rec_def js_slice_0_take)
  ultimately show ?thesis by simp
qed

text \<open>
  Claim C3, amended. No value of \<^verbatim>\<open>limit\<close> or \<^verbatim>\<open>includeRecent\<close> makes
  \<^verbatim>\<open>searchMessages\<close> throw or keeps it from throwing. With
  \<^verbatim>\<open>0 \<le> includeRecent \<le> limit\<close> the result holds at most \<^verbatim>\<open>limit\<close> entries. With
  \<^verbatim>\<open>includeRecent = limit\<close>, of any sign, all entries carry the reason \<^verbatim>\<open>recent\<close>.
\<close>

theorem result_size_within_limit:
  "(isl (searchMessages g qr (p\<lparr>p_limit := l, p_includeRecent := r\<rparr>)) \<longleftrightarrow>
      isl (searchMessages g qr p)) \<and>
   (searchMessages g qr p = Inr res \<longrightarrow>
      (0 \<le> includeRecent_of p \<and> includeRecent_of p \<le> limit_of p \<longrightarrow>
         int (length (messages res)) \<le> limit_of p) \<and>
      (includeRecent_of p = limit_of p \<longrightarrow> (\<forall>e\<in>set (messages res). snd e = Recent)))"
proof -
  have a: "isl (searchMessages g qr (p\<lparr>p_limit := l, p_includeRecent := r\<rparr>)) \<longleftrightarrow>
      isl (searchMessages g qr p)"
    by (simp add: searchMessages_def Let_def split: option.splits sum.splits)
  have b: "(0 \<le> includeRecent_of p \<and> includeRecent_of p \<le> limit_of p \<longrightarrow>
         int (length (messages res)) \<le> limit_of p) \<and>
      (includeRecent_of p = limit_of p \<longrightarrow> (\<forall>e\<in>set (messages res). snd e = Recent))"
    if res: "searchMessages g qr p = Inr res"
  proof -
    from searchMessages_Inr [OF res] consider "messages res = []"
      | scored where  "messages res =
           map (\<lambda>msg. (msg, Recent)) (js_slice 0 (includeRecent_of p) scored) @
           map (\<lambda>msg. (msg, Semantic))
             (js_slice 0 (limit_of p - includeRecent_of p)
                (sort_by_similarity
                   (filter (\<lambda>msg. similarity msg \<ge> minSimilarity_of p)
                      (js_slice_from (includeRecent_of p) scored))))"
      by auto
    then show ?thesis
    proof cases
      case 1
      then show ?thesis by simp
    next
      case 2
      have size: "int (length (messages res)) \<le> limit_of p"
        if "0 \<le> includeRecent_of p" "includeRecent_of p \<le> limit_of p"
        using 2 that by (auto simp: js_slice_0_take)
      have recent: "\<forall>e\<in>set (messages res). snd e = Recent"
        if "includeRecent_of p = limit_of p"
        using 2 that by (auto simp: js_slice_0_0)
      from size recent show ?thesis by blast
    qed
  qed
  from a b show ?thesis by blast
qed

subsection \<open>Runs on concrete sessions\<close>

lemma score_null: "scoreMessage q (example_row i EmbNull) = Inr (example_scored i 0 False)"
  by (simp add: scoreMessage_def example_row_def example_scored_def)

lemma score_one: "scoreMessage [1] (example_row i (EmbArray [1])) = Inr (example_scored i 1 True)"
  by (simp add: scoreMessage_def example_row_def example_scored_def cosineSimilarity_def)

lemma example_scored_sel [simp]:
  "similarity (example_scored i s b) = s" "hasEmbedding (example_scored i s b) = b"
  "sm_id (example_scored i s b) = i"
  by (simp_all add: example_scored_def)

lemmas payload_defs = const_embedding_def const_rows_def example_payload_def falsy_string_def
  limit_of_def minSimilarity_of_def includeRecent_of_def

lemmas slice_defs = js_slice_def js_slice_from_def sort_by_similarity_def

lemma search_two:
  "searchMessages (const_embedding [1])
     (const_rows [example_row ''m1'' EmbNull, example_row ''m2'' (EmbArray [1])])
     (example_payload (Some 5) (Some 0.5) (Some 1)) =
   Inr \<lparr> messages = [(example_scored ''m1'' 0 False, Recent), (example_scored ''m2'' 1 True, Semantic)],
         count = 2, searchQuery = ''coffee'', search_method = ''semantic'',
         stats = Some \<lparr> totalMessages = 2, recentCount = 1, semanticCount = 1,
                        messagesWithEmbeddings = 1 \<rparr> \<rparr>"
  apply (simp add: searchMessages_def payload_defs score_null score_one)
  apply (simp add: slice_defs)
  done

theorem semantic_needs_embedding_witness:
  "searchMessages (const_embedding [1])
     (const_rows [example_row ''m1'' EmbNull, example_row ''m2'' (EmbArray [1])])
     (example_payload (Some 5) (Some 0.5) (Some 1)) =
   Inr \<lparr> messages = [(example_scored ''m1'' 0 False, Recent), (example_scored ''m2'' 1 True, Semantic)],
         count = 2, searchQuery = ''coffee'', search_method = ''semantic'',
         stats = Some \<lparr> totalMessages = 2, recentCount = 1, semanticCount = 1,
                        messagesWithEmbeddings = 1 \<rparr> \<rparr> \<and>
   parse_embedding (row_embedding (example_row ''m1'' EmbNull)) = None \<and>
   0 < minSimilarity_of (example_payload (Some 5) (Some 0.5) (Some 1)) \<and>
   0 \<le> includeRecent_of (example_payload (Some 5) (Some 0.5) (Some 1)) \<and>
   int 0 < includeRecent_of (example_payload (Some 5) (Some 0.5) (Some 1))"
proof -
  let ?p = "example_payload (Some 5) (Some 0.5) (Some 1)"
  have 2: "const_embedding [1] (the (p_query ?p)) = Some [1]"
    by (simp add: const_embedding_def)
  have 3: "0 < minSimilarity_of ?p"
    by (simp add: payload_defs)
  have 6: "parse_embedding (row_embedding (example_row ''m1'' EmbNull)) = None"
    by (simp add: example_row_def)
  from semantic_needs_embedding [OF search_two 2 3 _ _ 6, of 0] 3 6 search_two
  show ?thesis
    by (simp add: score_null includeRecent_of_def example_payload_def)
qed

text \<open>
  With \<^verbatim>\<open>minSimilarity = 0\<close> and \<^verbatim>\<open>includeRecent = 0\<close>, the only row of a session,
  which has no embedding, scores 0, passes the threshold and is returned with the reason
  \<^verbatim>\<open>semantic\<close>.
\<close>

theorem embeddingless_semantic_counterexample:
  "map_sum id result_tags
     (searchMessages (const_embedding [1]) (const_rows [example_row ''m1'' EmbNull])
        (example_payload None (Some 0) (Some 0))) =
   Inr [(''m1'', False, Semantic)]"
  apply (simp add: searchMessages_def payload_defs score_null)
  apply (simp add: slice_defs result_tags_def)
  done

lemma search_budget:
  "searchMessages (const_embedding [1])
     (const_rows [example_row ''m1'' EmbNull, example_row ''m2'' (EmbArray [1])])
     (example_payload (Some 1) None (Some 1)) =
   Inr \<lparr> messages = [(example_scored ''m1'' 0 False, Recent)],
         count = 1, searchQuery = ''coffee'', search_method = ''semantic'',
         stats = Some \<lparr> totalMessages = 2, recentCount = 1, semanticCount = 0,
                        messagesWithEmbeddings = 1 \<rparr> \<rparr>"
  apply (simp add: searchMessages_def payload_defs score_null score_one)
  apply (simp add: slice_defs)
  done

lemma search_negative:
  "searchMessages (const_embedding [1])
     (const_rows [example_row ''m1'' EmbNull, example_row ''m2'' (EmbArray [1])])
     (example_payload (Some (- 1)) None (Some (- 1))) =
   Inr \<lparr> messages = [(example_scored ''m1'' 0 False, Recent)],
         count = 1, searchQuery = ''coffee'', search_method = ''semantic'',
         stats = Some \<lparr> totalMessages = 2, recentCount = 1, semanticCount = 0,
                        messagesWithEmbeddings = 1 \<rparr> \<rparr>"
  apply (simp add: searchMessages_def payload_defs score_null score_one)
  apply (simp add: slice_defs)
  done

theorem result_size_within_limit_witness:
  "searchMessages (const_embedding [1])
     (const_rows [example_row ''m1'' EmbNull, example_row ''m2'' (EmbArray [1])])
     (example_payload (Some 1) None (Some 1)) =
   Inr \<lparr> messages = [(example_scored ''m1'' 0 False, Recent)],
         count = 1, searchQuery = ''coffee'', search_method = ''semantic'',
         stats = Some \<lparr> totalMessages = 2, recentCount = 1, semanticCount = 0,
                        messagesWithEmbeddings = 1 \<rparr> \<rparr> \<and>
   0 \<le> includeRecent_of (example_payload (Some 1) None (Some 1)) \<and>
   includeRecent_of (example_payload (Some 1) None (Some 1)) =
     limit_of (example_payload (Some 1) None (Some 1)) \<and>
   int (length [(example_scored ''m1'' 0 False, Recent)]) \<le>
     limit_of (example_payload (Some 1) None (Some 1)) \<and>
   searchMessages (const_embedding [1])
     (const_rows [example_row ''m1'' EmbNull, example_row ''m2'' (EmbArray [1])])
     (example_payload (Some (- 1)) None (Some (- 1))) =
   Inr \<lparr> messages = [(example_scored ''m1'' 0 False, Recent)],
         count = 1, searchQuery = ''coffee'', search_method = ''semantic'',
         stats = Some \<lparr> totalMessages = 2, recentCount = 1, semanticCount = 0,
                        messagesWithEmbeddings = 1 \<rparr> \<rparr> \<and>
   includeRecent_of (example_payload (Some (- 1)) None (Some (- 1))) =
     limit_of (example_payload (Some (- 1)) None (Some (- 1)))"
  using result_size_within_limit [where g = "const_embedding [1]"
      and qr = "const_rows [example_row ''m1'' EmbNull, example_row ''m2'' (EmbArray [1])]"
      and p = "example_payload (Some 1) None (Some 1)" and l = "Some 1" and r = "Some 1"]
    result_size_within_limit [where g = "const_embedding [1]"
      and qr = "const_rows [example_row ''m1'' EmbNull, example_row ''m2'' (EmbArray [1])]"
      and p = "example_payload (Some (- 1)) None (Some (- 1))" and l = "Some 1" and r = "Some 1"]
    search_budget search_negative
  by (simp add: limit_of_def includeRecent_of_def example_payload_def)

text \<open>
  With \<^verbatim>\<open>limit = 1\<close> and \<^verbatim>\<open>includeRecent = 2\<close> on four rows, of which the two older
  ones match the query: the two recent rows are returned, and
  \<^verbatim>\<open>slice(0, limit - includeRecent)\<close>, which is \<^verbatim>\<open>slice(0, -1)\<close>, keeps one of the two
  matches.
\<close>

theorem result_size_counterexample:
  "map_sum id result_tags
     (searchMessages (const_embedding [1])
        (const_rows [example_row ''m1'' EmbNull, example_row ''m2'' EmbNull,
                     example_row ''m3'' (EmbArray [1]), example_row ''m4'' (EmbArray [1])])
        (example_payload (Some 1) None (Some 2))) =
   Inr [(''m1'', False, Recent), (''m2'', False, Recent), (''m3'', True, Semantic)] \<and>
   limit_of (example_payload (Some 1) None (Some 2)) = 1 \<and>
   includeRecent_of (example_payload (Some 1) None (Some 2)) = 2"
  apply (simp add: searchMessages_def payload_defs score_null score_one)
  apply (simp add: slice_defs result_tags_def)
  done

theorem searchMessages_length_mismatch_raises_witness:
  "example_row ''m2'' (EmbArray [1]) \<in>
     set [example_row ''m1'' EmbNull, example_row ''m2'' (EmbArray [1])] \<and>
   parse_embedding (row_embedding (example_row ''m2'' (EmbArray [1]))) = Some [1] \<and>
   length [1 :: real] \<noteq> length [1, 0 :: real] \<and>
   searchMessages (const_embedding [1, 0])
     (const_rows [example_row ''m1'' EmbNull, example_row ''m2'' (EmbArray [1])])
     (example_payload None None None) = Inl VectorsLength"
proof -
  let ?p = "example_payload None None None"
  let ?rows = "[example_row ''m1'' EmbNull, example_row ''m2'' (EmbArray [1])]"
  have 1: "\<not> falsy_string (p_sessionId ?p)" and 2: "\<not> falsy_string (p_query ?p)"
    by (simp_all add: payload_defs)
  have 3: "const_embedding [1, 0] (the (p_query ?p)) = Some [1, 0]"
    by (simp add: const_embedding_def)
  have 4: "const_rows ?rows (the (p_sessionId ?p)) = Some ?rows"
    by (simp add: const_rows_def)
  have 5: "example_row ''m2'' (EmbArray [1]) \<in> set ?rows" by simp
  have 6: "parse_embedding (row_embedding (example_row ''m2'' (EmbArray [1]))) = Some [1]"
    by (simp add: example_row_def)
  have 7: "length [1 :: real] \<noteq> length [1, 0 :: real]" by simp
  have 8: "\<forall>r\<in>set ?rows. parse_metadata (row_metadata r) \<noteq> Inl MetadataSyntax"
    by (simp add: example_row_def)
  from searchMessages_length_mismatch_raises
         [where g = "const_embedding [1, 0]" and qr = "const_rows ?rows", OF 1 2 3 4 5 6 7] 5 6 8
  show ?thesis
    by simp
qed

section \<open>The context extractor\<close>

subsection \<open>The entity extraction client\<close>

lemma mapEntities_Inr:
  "mapEntities es = Inr cs \<Longrightarrow>
   map ent_confidence cs = map (or_confidence \<circ> raw_confidence) es \<and>
   list_all (\<lambda>e. raw_type e \<noteq> None) es"
proof (induction es arbitrary: cs)
  case Nil
  then show ?case by simp
next
  case (Cons e es)
  then show ?case
    by (auto simp: mapEntity_def split: sum.splits option.splits)
qed

lemma mapEntities_typed:
  "list_all (\<lambda>e. raw_type e \<noteq> None) es \<Longrightarrow> \<exists>cs. mapEntities es = Inr cs"
  by (induction es) (auto simp: mapEntity_def split: sum.splits option.splits)

lemma or_confidence_nonzero: "or_confidence c \<noteq> 0"
  by (simp add: or_confidence_def split: option.splits)

lemma mapEntities_confidence:
  "mapEntities es = Inr cs \<Longrightarrow> c \<in> set cs \<Longrightarrow> ent_confidence c \<noteq> 0"
proof (induction es arbitrary: cs)
  case Nil
  then show ?case by simp
next
  case (Cons e es)
  then show ?case
    by (auto simp: mapEntity_def or_confidence_nonzero split: sum.splits option.splits)
qed

lemma phi4_try_confidence:
  "phi4_try outcome = Inr cs \<Longrightarrow> c \<in> set cs \<Longrightarrow> ent_confidence c \<noteq> 0"
  by (auto simp: phi4_try_def split: phi4_outcome.splits if_splits entities_field.splits
           dest: mapEntities_confidence)

lemma mapEntities_map:
  "mapEntities es = Inr cs \<Longrightarrow> map Inr cs = map mapEntity es"
proof (induction es arbitrary: cs)
  case Nil
  then show ?case by simp
next
  case (Cons e es)
  then show ?case by (auto split: sum.splits)
qed

text \<open>
  Claim C6, amended. \<^verbatim>\<open>extractEntitiesViaPhi4\<close> returns a list on every outcome of the
  request. The list is empty on a timeout, on a transport error and on every reply that has
  not the status \<^verbatim>\<open>ok\<close>, has no array of entities, or has an entity without a type. On
  every other reply it holds one candidate for each entity of the reply, also for an entity
  that has neither text nor value. A reply of the expected shape is among these.
\<close>

theorem phi4_fails_soft:
  "extractEntitiesViaPhi4 Timeout = [] \<and> extractEntitiesViaPhi4 TransportError = [] \<and>
   (\<not> typed_reply r \<longrightarrow> extractEntitiesViaPhi4 (Responded r) = []) \<and>
   (typed_reply r \<and> resp_entities r = EntitiesArray es \<longrightarrow>
      map Inr (extractEntitiesViaPhi4 (Responded r)) = map mapEntity es) \<and>
   (expected_shape r \<longrightarrow> typed_reply r)"
proof -
  have untyped: "extractEntitiesViaPhi4 (Responded r) = []" if "\<not> typed_reply r"
  proof (cases "phi4_try (Responded r)")
    case (Inl err)
    then show ?thesis by (simp add: extractEntitiesViaPhi4_def)
  next
    case (Inr cs)
    with that show ?thesis
      by (auto simp: extractEntitiesViaPhi4_def phi4_try_def typed_reply_def
               split: if_splits entities_field.splits dest: mapEntities_Inr)
  qed
  have typed: "map Inr (extractEntitiesViaPhi4 (Responded r)) = map mapEntity es"
    if "typed_reply r" "resp_entities r = EntitiesArray es"
  proof -
    from that have t: "list_all (\<lambda>e. raw_type e \<noteq> None) es" "resp_status r = Some ''ok''"
      by (simp_all add: typed_reply_def)
    from mapEntities_typed [OF t(1)] obtain cs where cs: "mapEntities es = Inr cs" ..
    with that t have "extractEntitiesViaPhi4 (Responded r) = cs"
      by (simp add: extractEntitiesViaPhi4_def phi4_try_def)
    with mapEntities_map [OF cs] show ?thesis by simp
  qed
  have shape: "typed_reply r" if "expected_shape r"
    using that
    by (auto simp: expected_shape_def typed_reply_def list_all_iff split: entities_field.splits)
  from untyped typed shape show ?thesis
    by (simp add: extractEntitiesViaPhi4_def phi4_try_def)
qed

text \<open>
  Claim C9. No entity candidate that \<^verbatim>\<open>extractEntitiesViaPhi4\<close> returns has the
  confidence 0: on a reply with status \<^verbatim>\<open>ok\<close> and typed entities each confidence is that of the payload put
  through \<^verbatim>\<open>|| 0.8\<close>, which replaces an absent confidence and a confidence of 0 alike
  by 0.8.
\<close>

theorem phi4_confidence_never_zero:
  "(\<forall>c\<in>set (extractEntitiesViaPhi4 outcome). ent_confidence c \<noteq> 0) \<and>
   (typed_reply r \<and> resp_entities r = EntitiesArray es \<longrightarrow>
      map ent_confidence (extractEntitiesViaPhi4 (Responded r)) =
        map (or_confidence \<circ> raw_confidence) es) \<and>
   or_confidence None = 0.8 \<and> or_confidence (Some 0) = 0.8"
proof -
  have 1: "\<forall>c\<in>set (extractEntitiesViaPhi4 outcome). ent_confidence c \<noteq> 0"
    by (cases "phi4_try outcome") (auto simp: extractEntitiesViaPhi4_def dest: phi4_try_confidence)
  have 2: "map ent_confidence (extractEntitiesViaPhi4 (Responded r)) =
        map (or_confidence \<circ> raw_confidence) es"
    if "typed_reply r" "resp_entities r = EntitiesArray es"
  proof -
    from that have t: "list_all (\<lambda>e. raw_type e \<noteq> None) es" "resp_status r = Some ''ok''"
      by (simp_all add: typed_reply_def)
    from mapEntities_typed [OF t(1)] obtain cs where cs: "mapEntities es = Inr cs" ..
    with that t have "extractEntitiesViaPhi4 (Responded r) = cs"
      by (simp add: extractEntitiesViaPhi4_def phi4_try_def)
    with mapEntities_Inr [OF cs] show ?thesis by simp
  qed
  from 1 2 show ?thesis by (simp add: or_confidence_def)
qed

subsection \<open>The coordinator\<close>

text \<open>
  Claim C1, amended. \<^verbatim>\<open>extract\<close> returns a result for every text and session; its
  method is \<^verbatim>\<open>phi4_llm\<close> or \<^verbatim>\<open>fallback\<close>. It is \<^verbatim>\<open>fallback\<close> exactly when
  something is thrown inside the \<^verbatim>\<open>try\<close> block, which only the derivation of facts
  from the entities can do; the facts are then the quick facts of the text and there are no
  entities.
\<close>

theorem extract_method:
  "(extraction_method (extractContext M phi4 now text sid) = ''phi4_llm'' \<or>
    extraction_method (extractContext M phi4 now text sid) = ''fallback'') \<and>
   (extraction_method (extractContext M phi4 now text sid) = ''fallback'' \<longleftrightarrow>
      isl (extract_try M phi4 now text sid)) \<and>
   (isl (extract_try M phi4 now text sid) \<longleftrightarrow>
      isl (extractFactsViaLLM M text (extractEntitiesViaPhi4 (phi4 text)))) \<and>
   (isl (extract_try M phi4 now text sid) \<longrightarrow>
      facts (extractContext M phi4 now text sid) = extractQuickFacts M text \<and>
      entities (extractContext M phi4 now text sid) = []) \<and>
   sessionId (extractContext M phi4 now text sid) = sid"
  by (cases "extractFactsViaLLM M text (extractEntitiesViaPhi4 (phi4 text))")
     (simp_all add: extractContext_def extract_try_def Let_def)

subsection \<open>Deduplication of facts\<close>

lemma js_Map_acc_map_of:
  "map_of (foldl (\<lambda>m (k, v). AList.update k v m) m es) = map_of m ++ map_of (rev es)"
proof (induction es arbitrary: m)
  case Nil
  then show ?case by simp
next
  case (Cons e es)
  obtain k v where e: "e = (k, v)" by (cases e)
  have "map_of (AList.update k v m) ++ map_of (rev es) =
        map_of m ++ (map_of [(k, v)] ++ map_of (rev es))"
    by (simp add: update_conv' map_add_upd_left fun_eq_iff map_add_def split: option.splits)
  with Cons [of "AList.update k v m"] e show ?case by simp
qed

lemma js_Map_acc_distinct:
  "distinct (map fst m) \<Longrightarrow> distinct (map fst (foldl (\<lambda>m (k, v). AList.update k v m) m es))"
  by (induction es arbitrary: m) (auto simp: distinct_update)

lemma set_update_subset: "set (AList.update k v al) \<subseteq> insert (k, v) (set al)"
  by (induction al) auto

lemma js_Map_acc_keyed:
  "\<forall>(k, f)\<in>set m. k = fact_key f \<Longrightarrow>
   \<forall>(k, f)\<in>set (foldl (\<lambda>m (k, v). AList.update k v m) m (map (\<lambda>f. (fact_key f, f)) fs)). k = fact_key f"
proof (induction fs arbitrary: m)
  case Nil
  then show ?case by simp
next
  case (Cons f fs)
  have "\<forall>(k, g)\<in>set (AList.update (fact_key f) f m). k = fact_key g"
    using Cons.prems set_update_subset [of "fact_key f" f m] by auto
  from Cons.IH [OF this] show ?case by simp
qed

lemma keyed_find:
  "\<forall>(k, f)\<in>set al. k = fact_key f \<Longrightarrow>
   find (\<lambda>f. fact_key f = k) (map snd al) = map_of al k"
  by (induction al) auto

lemma keyed_keys:
  "\<forall>(k, f)\<in>set al. k = fact_key f \<Longrightarrow> map (fact_key \<circ> snd) al = map fst al"
  by (induction al) auto

lemma map_of_keyed: "map_of (map (\<lambda>f. (fact_key f, f)) fs) k = find (\<lambda>f. fact_key f = k) fs"
  by (induction fs) auto

lemma uniqueFacts_distinct: "distinct (map fact_key (uniqueFacts fs))"
proof -
  have k: "\<forall>(k, f)\<in>set (js_Map (map (\<lambda>f. (fact_key f, f)) fs)). k = fact_key f"
    unfolding js_Map_def by (rule js_Map_acc_keyed) simp
  have d: "distinct (map fst (js_Map (map (\<lambda>f. (fact_key f, f)) fs)))"
    unfolding js_Map_def by (rule js_Map_acc_distinct) simp
  have eq: "map fact_key (uniqueFacts fs) = map fst (js_Map (map (\<lambda>f. (fact_key f, f)) fs))"
    unfolding uniqueFacts_def map_map by (rule keyed_keys [OF k])
  show ?thesis unfolding eq by (rule d)
qed

lemma uniqueFacts_find:
  "find (\<lambda>f. fact_key f = k) (uniqueFacts fs) = find (\<lambda>f. fact_key f = k) (rev fs)"
proof -
  have k: "\<forall>(k, f)\<in>set (js_Map (map (\<lambda>f. (fact_key f, f)) fs)). k = fact_key f"
    unfolding js_Map_def by (rule js_Map_acc_keyed) simp
  have "map_of (js_Map (map (\<lambda>f. (fact_key f, f)) fs)) k =
        map_of (rev (map (\<lambda>f. (fact_key f, f)) fs)) k"
    by (simp add: js_Map_def js_Map_acc_map_of)
  also have "\<dots> = find (\<lambda>f. fact_key f = k) (rev fs)"
    by (simp add: rev_map map_of_keyed)
  finally show ?thesis
    using keyed_find [OF k] by (simp add: uniqueFacts_def)
qed

text \<open>
  Claim C5. The keys of \<^verbatim>\<open>uniqueFacts\<close> are distinct, and for every key the fact kept is
  the last one with that key in the list it is made from. On its normal path \<^verbatim>\<open>extract\<close>
  returns \<^verbatim>\<open>uniqueFacts\<close> of the quick facts followed by the derived facts.
\<close>

theorem facts_last_write_wins:
  "distinct (map fact_key (uniqueFacts allFacts)) \<and>
   (\<forall>k. find (\<lambda>f. fact_key f = k) (uniqueFacts allFacts) =
        find (\<lambda>f. fact_key f = k) (rev allFacts)) \<and>
   (extraction_method (extractContext M phi4 now text sid) = ''phi4_llm'' \<longrightarrow>
      (\<exists>llmFacts. extractFactsViaLLM M text (extractEntitiesViaPhi4 (phi4 text)) = Inr llmFacts \<and>
         facts (extractContext M phi4 now text sid) =
           uniqueFacts (extractQuickFacts M text @ llmFacts)))"
proof -
  have "\<exists>llmFacts. extractFactsViaLLM M text (extractEntitiesViaPhi4 (phi4 text)) = Inr llmFacts \<and>
         facts (extractContext M phi4 now text sid) =
           uniqueFacts (extractQuickFacts M text @ llmFacts)"
    if "extraction_method (extractContext M phi4 now text sid) = ''phi4_llm''"
    using that
    by (cases "extractFactsViaLLM M text (extractEntitiesViaPhi4 (phi4 text))")
       (simp_all add: extractContext_def extract_try_def Let_def)
  then show ?thesis
    by (simp add: uniqueFacts_distinct uniqueFacts_find)
qed

subsection \<open>Runs on concrete texts\<close>

lemmas extract_defs = extractContext_def extract_try_def extractFactsViaLLM_def
  extractEntitiesViaPhi4_def phi4_try_def mapEntity_def value_includes_def or_string_def
  or_confidence_def extractQuickFacts_def quickFactPatterns_def normalizeEntityType_def
  typeMap_def trim_def is_space_def toLowerCase_def lower_char_def uniqueFacts_def js_Map_def

lemma extract_pizza_bare:
  "extractContext pizza_matcher service_bare ''2025-10-22T17:00:00Z'' ''I love pizza'' ''s1'' =
   \<lparr> facts = [], entities = [], sessionId = ''s1'', extractedAt = ''2025-10-22T17:00:00Z'',
     extraction_method = ''fallback'' \<rparr>"
  by (simp add: extract_defs pizza_matcher_def service_bare_def bare_entity_def)

lemma extract_try_pizza_bare:
  "extract_try pizza_matcher service_bare ''2025-10-22T17:00:00Z'' ''I love pizza'' ''s1'' =
   Inl TypeError"
  by (simp add: extract_defs pizza_matcher_def service_bare_def bare_entity_def)

lemma extract_pizza:
  "extractContext pizza_matcher service_pizza ''2025-10-22T17:00:00Z'' ''I love pizza'' ''s1'' =
   \<lparr> facts = [example_fact ''likes_food'' ''pizza'' 0.85],
     entities = [\<lparr> ent_type = ''food'', ent_value = Some ''pizza'', ent_confidence = 0.7,
                   startPos = Some 7, endPos = Some 12 \<rparr>],
     sessionId = ''s1'', extractedAt = ''2025-10-22T17:00:00Z'',
     extraction_method = ''phi4_llm'' \<rparr>"
  by (simp add: extract_defs pizza_matcher_def service_pizza_def pizza_entity_def example_fact_def)

theorem extract_method_witness:
  "isl (extract_try pizza_matcher service_bare ''2025-10-22T17:00:00Z'' ''I love pizza'' ''s1'') \<and>
   extraction_method
     (extractContext pizza_matcher service_bare ''2025-10-22T17:00:00Z'' ''I love pizza'' ''s1'') =
     ''fallback'' \<and>
   facts (extractContext pizza_matcher service_bare ''2025-10-22T17:00:00Z'' ''I love pizza'' ''s1'') =
     extractQuickFacts pizza_matcher ''I love pizza'' \<and>
   entities
     (extractContext pizza_matcher service_bare ''2025-10-22T17:00:00Z'' ''I love pizza'' ''s1'') = []"
  using extract_method [of pizza_matcher service_bare "''2025-10-22T17:00:00Z''" "''I love pizza''"
      "''s1''"]
  by (simp add: extract_try_pizza_bare extract_pizza_bare)

text \<open>
  When the request times out on the text \<^verbatim>\<open>hello\<close>, the result has no entities and its
  method is \<^verbatim>\<open>phi4_llm\<close>, which is neither \<^verbatim>\<open>full\<close> nor \<^verbatim>\<open>fallback\<close>.
\<close>

theorem extract_method_counterexample:
  "extraction_method
     (extractContext pizza_matcher service_timeout ''2025-10-22T17:00:00Z'' ''hello'' ''s1'') =
     ''phi4_llm'' \<and>
   extraction_method
     (extractContext pizza_matcher service_timeout ''2025-10-22T17:00:00Z'' ''hello'' ''s1'') \<noteq>
     ''full'' \<and>
   extraction_method
     (extractContext pizza_matcher service_timeout ''2025-10-22T17:00:00Z'' ''hello'' ''s1'') \<noteq>
     ''fallback'' \<and>
   entities
     (extractContext pizza_matcher service_timeout ''2025-10-22T17:00:00Z'' ''hello'' ''s1'') = []"
  by (simp add: extract_defs pizza_matcher_def service_timeout_def)

theorem phi4_fails_soft_witness:
  "\<not> typed_reply \<lparr> resp_status = Some ''error'', resp_entities = EntitiesMissing \<rparr> \<and>
   extractEntitiesViaPhi4
     (Responded \<lparr> resp_status = Some ''error'', resp_entities = EntitiesMissing \<rparr>) = [] \<and>
   \<not> typed_reply \<lparr> resp_status = Some ''ok'', resp_entities = EntitiesNotArray \<rparr> \<and>
   extractEntitiesViaPhi4
     (Responded \<lparr> resp_status = Some ''ok'', resp_entities = EntitiesNotArray \<rparr>) = [] \<and>
   \<not> typed_reply
       \<lparr> resp_status = Some ''ok'',
         resp_entities = EntitiesArray [pizza_entity, bare_entity\<lparr> raw_type := None \<rparr>] \<rparr> \<and>
   extractEntitiesViaPhi4
     (Responded
        \<lparr> resp_status = Some ''ok'',
          resp_entities = EntitiesArray [pizza_entity, bare_entity\<lparr> raw_type := None \<rparr>] \<rparr>) = [] \<and>
   expected_shape \<lparr> resp_status = Some ''ok'', resp_entities = EntitiesArray [pizza_entity] \<rparr> \<and>
   typed_reply \<lparr> resp_status = Some ''ok'', resp_entities = EntitiesArray [pizza_entity] \<rparr> \<and>
   map Inr
     (extractEntitiesViaPhi4
        (Responded \<lparr> resp_status = Some ''ok'', resp_entities = EntitiesArray [pizza_entity] \<rparr>)) =
   map mapEntity [pizza_entity]"
  using
    phi4_fails_soft [of "\<lparr> resp_status = Some ''error'', resp_entities = EntitiesMissing \<rparr>"]
    phi4_fails_soft [of "\<lparr> resp_status = Some ''ok'', resp_entities = EntitiesNotArray \<rparr>"]
    phi4_fails_soft [of "\<lparr> resp_status = Some ''ok'',
         resp_entities = EntitiesArray [pizza_entity, bare_entity\<lparr> raw_type := None \<rparr>] \<rparr>"]
    phi4_fails_soft [of "\<lparr> resp_status = Some ''ok'', resp_entities = EntitiesArray [pizza_entity] \<rparr>"
                        "[pizza_entity]"]
  by (simp add: typed_reply_def expected_shape_def pizza_entity_def bare_entity_def)

lemma entities_service_bare:
  "extractEntitiesViaPhi4 (service_bare text) =
     [\<lparr> ent_type = ''food'', ent_value = None, ent_confidence = 0.8,
        startPos = None, endPos = None \<rparr>]"
  by (simp add: extract_defs service_bare_def bare_entity_def)

text \<open>
  A reply with status \<^verbatim>\<open>ok\<close> whose only entity has a type and a confidence but neither
  text nor value has not the expected shape, and the client returns a candidate for it.
\<close>

theorem phi4_fails_soft_counterexample:
  "\<not> expected_shape \<lparr> resp_status = Some ''ok'', resp_entities = EntitiesArray [bare_entity] \<rparr> \<and>
   extractEntitiesViaPhi4
     (Responded \<lparr> resp_status = Some ''ok'', resp_entities = EntitiesArray [bare_entity] \<rparr>) =
     [\<lparr> ent_type = ''food'', ent_value = None, ent_confidence = 0.8,
        startPos = None, endPos = None \<rparr>]"
  using entities_service_bare [of "''I love pizza''"]
  by (simp add: service_bare_def expected_shape_def bare_entity_def)

theorem phi4_confidence_never_zero_witness:
  "typed_reply \<lparr> resp_status = Some ''ok'', resp_entities = EntitiesArray [bare_entity] \<rparr> \<and>
   raw_confidence bare_entity = Some 0 \<and>
   map ent_confidence (extractEntitiesViaPhi4 (service_bare ''I love pizza'')) = [0.8] \<and>
   map ent_confidence (extractEntitiesViaPhi4 (service_bare ''I love pizza'')) =
     map (or_confidence \<circ> raw_confidence) [bare_entity]"
  using phi4_confidence_never_zero
    [of "service_bare ''I love pizza''"
        "\<lparr> resp_status = Some ''ok'', resp_entities = EntitiesArray [bare_entity] \<rparr>"
        "[bare_entity]"]
  by (simp add: entities_service_bare typed_reply_def bare_entity_def or_confidence_def)

theorem facts_last_write_wins_witness:
  "uniqueFacts [example_fact ''likes_food'' ''pizza'' 0.85, example_fact ''user_name'' ''Ada'' 0.95,
                example_fact ''likes_food'' ''sushi'' 0.9] =
     [example_fact ''likes_food'' ''sushi'' 0.9, example_fact ''user_name'' ''Ada'' 0.95] \<and>
   find (\<lambda>f. fact_key f = ''likes_food'')
     (uniqueFacts [example_fact ''likes_food'' ''pizza'' 0.85, example_fact ''user_name'' ''Ada'' 0.95,
                   example_fact ''likes_food'' ''sushi'' 0.9]) =
     Some (example_fact ''likes_food'' ''sushi'' 0.9) \<and>
   extraction_method
     (extractContext pizza_matcher service_pizza ''2025-10-22T17:00:00Z'' ''I love pizza'' ''s1'') =
     ''phi4_llm'' \<and>
   facts (extractContext pizza_matcher service_pizza ''2025-10-22T17:00:00Z'' ''I love pizza'' ''s1'') =
     uniqueFacts (extractQuickFacts pizza_matcher ''I love pizza'' @
                  [example_fact ''likes_food'' ''pizza'' 0.85])"
proof -
  have u: "uniqueFacts [example_fact ''likes_food'' ''pizza'' 0.85,
                        example_fact ''user_name'' ''Ada'' 0.95,
                        example_fact ''likes_food'' ''sushi'' 0.9] =
     [example_fact ''likes_food'' ''sushi'' 0.9, example_fact ''user_name'' ''Ada'' 0.95]"
    by (simp add: uniqueFacts_def js_Map_def example_fact_def)
  have q: "extractQuickFacts pizza_matcher ''I love pizza'' = []"
    by (simp add: extractQuickFacts_def quickFactPatterns_def pizza_matcher_def)
  have v: "uniqueFacts [example_fact ''likes_food'' ''pizza'' 0.85] =
           [example_fact ''likes_food'' ''pizza'' 0.85]"
    by (simp add: uniqueFacts_def js_Map_def example_fact_def)
  have r: "find (\<lambda>f. fact_key f = ''likes_food'')
       (rev [example_fact ''likes_food'' ''pizza'' 0.85, example_fact ''user_name'' ''Ada'' 0.95,
             example_fact ''likes_food'' ''sushi'' 0.9]) =
     Some (example_fact ''likes_food'' ''sushi'' 0.9)"
    by (simp add: example_fact_def)
  from facts_last_write_wins
    [of "[example_fact ''likes_food'' ''pizza'' 0.85, example_fact ''user_name'' ''Ada'' 0.95,
          example_fact ''likes_food'' ''sushi'' 0.9]"
        pizza_matcher service_pizza "''2025-10-22T17:00:00Z''" "''I love pizza''" "''s1''"]
  have "find (\<lambda>f. fact_key f = ''likes_food'')
     (uniqueFacts [example_fact ''likes_food'' ''pizza'' 0.85, example_fact ''user_name'' ''Ada'' 0.95,
                   example_fact ''likes_food'' ''sushi'' 0.9]) =
     find (\<lambda>f. fact_key f = ''likes_food'')
       (rev [example_fact ''likes_food'' ''pizza'' 0.85, example_fact ''user_name'' ''Ada'' 0.95,
             example_fact ''likes_food'' ''sushi'' 0.9])"
    by blast
  from this r have f: "find (\<lambda>f. fact_key f = ''likes_food'')
     (uniqueFacts [example_fact ''likes_food'' ''pizza'' 0.85, example_fact ''user_name'' ''Ada'' 0.95,
                   example_fact ''likes_food'' ''sushi'' 0.9]) =
     Some (example_fact ''likes_food'' ''sushi'' 0.9)"
    by (rule trans)
  have e1: "extraction_method
     (extractContext pizza_matcher service_pizza ''2025-10-22T17:00:00Z'' ''I love pizza'' ''s1'') =
     ''phi4_llm''"
    by (simp add: extract_pizza)
  have e2: "facts (extractContext pizza_matcher service_pizza ''2025-10-22T17:00:00Z'' ''I love pizza'' ''s1'') =
     uniqueFacts (extractQuickFacts pizza_matcher ''I love pizza'' @
                  [example_fact ''likes_food'' ''pizza'' 0.85])"
    using v by (simp add: q extract_pizza)
  from u f e1 e2 show ?thesis by blast
qed

section \<open>The entity store\<close>

lemma find_filter_conv:
  "find P xs = (case filter P xs of [] \<Rightarrow> None | x # _ \<Rightarrow> Some x)"
  by (induction xs) simp_all

lemma matches_update [simp]:
  "matches s t v (r\<lparr> e_mention_count := n, e_last_mentioned_at := l \<rparr>) = matches s t v r"
  by (simp add: matches_def)

lemma addEntity_call_failed:
  "addEntity_call Sqlite3Api c db = (Inl err, db') \<Longrightarrow> db' = db"
  by (auto simp: addEntity_call_def addEntity_def split: if_splits option.splits)

lemma map_e_id_bump:
  "map (e_id \<circ> (\<lambda>r. if e_id r = i then r\<lparr> e_mention_count := e_mention_count r + 1,
              e_last_mentioned_at := n \<rparr> else r)) db = map e_id db"
  by (induction db) simp_all

lemma addEntity_call_distinct:
  assumes "distinct (map e_id db)" "addEntity_call Sqlite3Api c db = (res, db')"
  shows "distinct (map e_id db')"
  using assms
  by (auto simp: addEntity_call_def addEntity_def map_e_id_bump split: if_splits option.splits)

lemma addEntity_call_new:
  assumes "filter (matches s t v) db = []" "call_for s t v c" "addEntity_call Sqlite3Api c db = (Inr x, db')"
  shows "\<exists>r. filter (matches s t v) db' = [r] \<and> e_mention_count r = 1 \<and>
             e_first_mentioned_at r = db_now (c_env c) \<and> e_last_mentioned_at r = db_now (c_env c)"
  using assms
  by (auto simp: addEntity_call_def addEntity_def call_for_def find_filter_conv matches_def
           split: if_splits)

lemma addEntity_call_existing:
  assumes "filter (matches s t v) db = [r0]" "call_for s t v c" "addEntity_call Sqlite3Api c db = (Inr x, db')"
  shows "filter (matches s t v) db' =
           [r0\<lparr> e_mention_count := e_mention_count r0 + 1, e_last_mentioned_at := db_now (c_env c) \<rparr>]"
proof -
  let ?f = "\<lambda>r. if e_id r = e_id r0
                 then r\<lparr> e_mention_count := e_mention_count r + 1,
                        e_last_mentioned_at := db_now (c_env c) \<rparr>
                 else r"
  from assms have db': "db' = map ?f db"
    by (auto simp: addEntity_call_def addEntity_def call_for_def find_filter_conv split: if_splits)
  have "filter (matches s t v) (map ?f db) = map ?f (filter (matches s t v) db)"
    by (induction db) simp_all
  with db' assms(1) show ?thesis by simp
qed

lemma addEntity_call_other:
  assumes "distinct (map e_id db)" "\<not> call_for s t v c" "addEntity_call Sqlite3Api c db = (res, db')"
  shows "filter (matches s t v) db' = filter (matches s t v) db"
proof (cases res)
  case (Inl err)
  with assms(3) addEntity_call_failed show ?thesis by blast
next
  case (Inr x)
  show ?thesis
  proof (cases "find (matches (c_sessionId c) (c_entityType c) (c_entityValue c)) db")
    case None
    with assms(2,3) Inr show ?thesis
      by (auto simp: addEntity_call_def addEntity_def call_for_def matches_def split: if_splits)
  next
    case (Some existing)
    let ?f = "\<lambda>r. if e_id r = e_id existing
                 then r\<lparr> e_mention_count := e_mention_count r + 1,
                        e_last_mentioned_at := db_now (c_env c) \<rparr>
                 else r"
    from Some have ex: "existing \<in> set db"
      "matches (c_sessionId c) (c_entityType c) (c_entityValue c) existing"
      by (auto simp: find_Some_iff)
    from Some assms(3) Inr have db': "db' = map ?f db"
      by (auto simp: addEntity_call_def addEntity_def split: if_splits)
    have "?f y = y" if "y \<in> set db" "matches s t v y" for y
    proof -
      from that(2) ex(2) assms(2) have "y \<noteq> existing"
        by (auto simp: matches_def call_for_def)
      with that(1) ex(1) assms(1) have "e_id y \<noteq> e_id existing"
        by (auto simp: distinct_map inj_on_def)
      then show ?thesis by simp
    qed
    then have "map ?f (filter (matches s t v) db) = filter (matches s t v) db"
      by (intro map_idI) simp
    moreover have "filter (matches s t v) (map ?f db) = map ?f (filter (matches s t v) db)"
      by (induction db) simp_all
    ultimately show ?thesis using db' by simp
  qed
qed


lemma run_calls_Cons:
  assumes "run_calls Sqlite3Api (c # cs) db = (results, db')"
  obtains res db1 ress where "addEntity_call Sqlite3Api c db = (res, db1)" "run_calls Sqlite3Api cs db1 = (ress, db')"
    "results = res # ress"
  using assms by (auto split: prod.splits)

lemma success_times_Cons:
  "success_times s t v (c # cs) (res # ress) =
     (if call_for s t v c \<and> isr res then [db_now (c_env c)] else []) @ success_times s t v cs ress"
  by (simp add: success_times_def)

lemma run_calls_existing:
  assumes "distinct (map e_id db)" "filter (matches s t v) db = [r0]"
    "run_calls Sqlite3Api calls db = (results, db')"
  shows "\<exists>r. filter (matches s t v) db' = [r] \<and>
           e_mention_count r = e_mention_count r0 + int (length (success_times s t v calls results)) \<and>
           e_first_mentioned_at r = e_first_mentioned_at r0 \<and>
           e_last_mentioned_at r = last (e_last_mentioned_at r0 # success_times s t v calls results)"
  using assms
proof (induction calls arbitrary: db r0 results)
  case Nil
  then show ?case by (simp add: success_times_def)
next
  case (Cons c cs)
  from Cons.prems(3) obtain res db1 ress where
    step: "addEntity_call Sqlite3Api c db = (res, db1)" and rest: "run_calls Sqlite3Api cs db1 = (ress, db')"
    and results: "results = res # ress"
    by (rule run_calls_Cons)
  from addEntity_call_distinct [OF Cons.prems(1) step] have d1: "distinct (map e_id db1)" .
  show ?case
  proof (cases "call_for s t v c \<and> isr res")
    case True
    then obtain x where x: "res = Inr x" by (cases res) (simp_all add: isr_def)
    let ?r1 = "r0\<lparr> e_mention_count := e_mention_count r0 + 1,
                    e_last_mentioned_at := db_now (c_env c) \<rparr>"
    from addEntity_call_existing [OF Cons.prems(2) _ step [unfolded x]] True
    have f1: "filter (matches s t v) db1 = [?r1]" by simp
    from Cons.IH [OF d1 f1 rest] True results show ?thesis
      by (auto simp: success_times_Cons)
  next
    case False
    have f1: "filter (matches s t v) db1 = [r0]"
    proof (cases "call_for s t v c")
      case True
      with False obtain err where "res = Inl err" by (cases res) (simp_all add: isr_def)
      with step addEntity_call_failed have "db1 = db" by blast
      with Cons.prems(2) show ?thesis by simp
    next
      case False
      from addEntity_call_other [OF Cons.prems(1) False step] Cons.prems(2) show ?thesis by simp
    qed
    from Cons.IH [OF d1 f1 rest] False results show ?thesis
      by (auto simp: success_times_Cons)
  qed
qed

lemma run_calls_new:
  assumes "distinct (map e_id db)" "filter (matches s t v) db = []"
    "run_calls Sqlite3Api calls db = (results, db')" "success_times s t v calls results \<noteq> []"
  shows "\<exists>r. filter (matches s t v) db' = [r] \<and>
           e_mention_count r = int (length (success_times s t v calls results)) \<and>
           e_first_mentioned_at r = hd (success_times s t v calls results) \<and>
           e_last_mentioned_at r = last (success_times s t v calls results)"
  using assms
proof (induction calls arbitrary: db results)
  case Nil
  then show ?case by (simp add: success_times_def)
next
  case (Cons c cs)
  from Cons.prems(3) obtain res db1 ress where
    step: "addEntity_call Sqlite3Api c db = (res, db1)" and rest: "run_calls Sqlite3Api cs db1 = (ress, db')"
    and results: "results = res # ress"
    by (rule run_calls_Cons)
  from addEntity_call_distinct [OF Cons.prems(1) step] have d1: "distinct (map e_id db1)" .
  show ?case
  proof (cases "call_for s t v c \<and> isr res")
    case True
    then obtain x where x: "res = Inr x" by (cases res) (simp_all add: isr_def)
    from addEntity_call_new [OF Cons.prems(2) _ step [unfolded x]] True
    obtain r1 where f1: "filter (matches s t v) db1 = [r1]" and
      r1: "e_mention_count r1 = 1" "e_first_mentioned_at r1 = db_now (c_env c)"
          "e_last_mentioned_at r1 = db_now (c_env c)"
      by auto
    from run_calls_existing [OF d1 f1 rest] r1 True results show ?thesis
      by (auto simp: success_times_Cons)
  next
    case False
    have f1: "filter (matches s t v) db1 = []"
    proof (cases "call_for s t v c")
      case True
      with False obtain err where "res = Inl err" by (cases res) (simp_all add: isr_def)
      with step addEntity_call_failed have "db1 = db" by blast
      with Cons.prems(2) show ?thesis by simp
    next
      case False
      from addEntity_call_other [OF Cons.prems(1) False step] Cons.prems(2) show ?thesis by simp
    qed
    from False results Cons.prems(4) have "success_times s t v cs ress \<noteq> []"
      by (auto simp: success_times_Cons split: if_splits)
    from Cons.IH [OF d1 f1 rest this] False results show ?thesis
      by (auto simp: success_times_Cons)
  qed
qed

lemma run_calls_length:
  "run_calls Sqlite3Api calls db = (results, db') \<Longrightarrow> length results = length calls"
  by (induction calls arbitrary: db results) (auto split: prod.splits)

lemma success_times_all:
  assumes "length results = length calls" "\<forall>c\<in>set calls. call_for s t v c" "\<forall>r\<in>set results. isr r"
  shows "success_times s t v calls results = map (\<lambda>c. db_now (c_env c)) calls"
  using assms
proof (induction calls arbitrary: results)
  case Nil
  then show ?case by (simp add: success_times_def)
next
  case (Cons c cs)
  then obtain r rs where "results = r # rs" by (cases results) auto
  with Cons show ?case by (simp add: success_times_Cons)
qed

lemma addEntity_call_monotone:
  assumes "addEntity_call Sqlite3Api c db = (res, db')" "i < length db"
  shows "i < length db' \<and> e_id (db' ! i) = e_id (db ! i) \<and>
         e_first_mentioned_at (db' ! i) = e_first_mentioned_at (db ! i) \<and>
         e_mention_count (db ! i) \<le> e_mention_count (db' ! i) \<and>
         (e_last_mentioned_at (db' ! i) = e_last_mentioned_at (db ! i) \<or>
          e_last_mentioned_at (db' ! i) = db_now (c_env c))"
  using assms
  by (auto simp: addEntity_call_def addEntity_def nth_append split: if_splits option.splits)

text \<open>
  On an object with the sqlite3 interface, and a table that starts without a row for a
  triple: once a call for the triple has succeeded the table has exactly one row for it,
  which counts the calls for the triple that succeeded and carries the database's time of
  the first and of the last of them. A call that fails is not counted, and
  \<^verbatim>\<open>last_mentioned_at\<close> follows the clock of the database, also backwards.
\<close>

lemma sqlite3_mention_count:
  assumes "distinct (map e_id db)"
    and "filter (matches s t v) db = []"
    and "run_calls Sqlite3Api calls db = (results, db')"
    and "success_times s t v calls results \<noteq> []"
  shows "(\<exists>r. filter (matches s t v) db' = [r] \<and>
            e_mention_count r = int (length (success_times s t v calls results)) \<and>
            e_first_mentioned_at r = hd (success_times s t v calls results) \<and>
            e_last_mentioned_at r = last (success_times s t v calls results) \<and>
            ((\<forall>c\<in>set calls. call_for s t v c) \<and> (\<forall>x\<in>set results. isr x) \<longrightarrow>
               e_mention_count r = int (length calls))) \<and>
         (\<forall>c d res d' i. addEntity_call Sqlite3Api c d = (res, d') \<and> i < length d \<longrightarrow>
            i < length d' \<and> e_id (d' ! i) = e_id (d ! i) \<and>
            e_first_mentioned_at (d' ! i) = e_first_mentioned_at (d ! i) \<and>
            e_mention_count (d ! i) \<le> e_mention_count (d' ! i) \<and>
            (e_last_mentioned_at (d ! i) \<le> db_now (c_env c) \<longrightarrow>
               e_last_mentioned_at (d ! i) \<le> e_last_mentioned_at (d' ! i)))"
proof -
  from run_calls_new [OF assms] obtain r where
    r: "filter (matches s t v) db' = [r]"
       "e_mention_count r = int (length (success_times s t v calls results))"
       "e_first_mentioned_at r = hd (success_times s t v calls results)"
       "e_last_mentioned_at r = last (success_times s t v calls results)"
    by blast
  have "e_mention_count r = int (length calls)"
    if "\<forall>c\<in>set calls. call_for s t v c" "\<forall>x\<in>set results. isr x"
    using success_times_all [OF run_calls_length [OF assms(3)] that] r(2) by simp
  with r have first: "\<exists>r. filter (matches s t v) db' = [r] \<and>
            e_mention_count r = int (length (success_times s t v calls results)) \<and>
            e_first_mentioned_at r = hd (success_times s t v calls results) \<and>
            e_last_mentioned_at r = last (success_times s t v calls results) \<and>
            ((\<forall>c\<in>set calls. call_for s t v c) \<and> (\<forall>x\<in>set results. isr x) \<longrightarrow>
               e_mention_count r = int (length calls))"
    by blast
  have step: "i < length d' \<and> e_id (d' ! i) = e_id (d ! i) \<and>
            e_first_mentioned_at (d' ! i) = e_first_mentioned_at (d ! i) \<and>
            e_mention_count (d ! i) \<le> e_mention_count (d' ! i) \<and>
            (e_last_mentioned_at (d ! i) \<le> db_now (c_env c) \<longrightarrow>
               e_last_mentioned_at (d ! i) \<le> e_last_mentioned_at (d' ! i))"
    if "addEntity_call Sqlite3Api c d = (res, d')" "i < length d" for c d res d' i
    using addEntity_call_monotone [OF that] by auto
  from first step show ?thesis by blast
qed

lemma run_ada:
  "run_calls Sqlite3Api [ada_call 10 ''ent_1'', ada_call 20 ''ent_2'', ada_call 30 ''ent_3''] [] =
     ([Inr (Inserted ''ent_1'' ''s1'' ''person'' ''Ada'' 1 ''{}''),
       Inr (Updated \<lparr> e_id = ''ent_1'', e_session_id = ''s1'', e_entity_type = ''person'',
                      e_entity_value = ''Ada'', e_first_mentioned_at = 10,
                      e_last_mentioned_at = 20, e_mention_count = 2, e_metadata = ''{}'' \<rparr>),
       Inr (Updated \<lparr> e_id = ''ent_1'', e_session_id = ''s1'', e_entity_type = ''person'',
                      e_entity_value = ''Ada'', e_first_mentioned_at = 10,
                      e_last_mentioned_at = 30, e_mention_count = 3, e_metadata = ''{}'' \<rparr>)],
      [\<lparr> e_id = ''ent_1'', e_session_id = ''s1'', e_entity_type = ''person'',
         e_entity_value = ''Ada'', e_first_mentioned_at = 10, e_last_mentioned_at = 30,
         e_mention_count = 3, e_metadata = ''{}'' \<rparr>])"
  by (simp add: ada_call_def addEntity_call_def addEntity_def matches_def)

text \<open>
  Claim C4. On the connection that the repository passes to the class, every call of
  \<^verbatim>\<open>addEntity\<close> is rejected, because \<^verbatim>\<open>this.db.get\<close> is no method of it, and the
  table stays as it is. After any number of calls on an empty table there is no row for any
  triple, so no stored record has a \<^verbatim>\<open>mention_count\<close> equal to the number of calls.
\<close>

theorem addEntity_rejected_on_repository_connection:
  "addEntity repository_connection env db sid ty v md = (Inl GetNotAFunction, db) \<and>
   run_calls repository_connection calls db = (map (\<lambda>c. Inl GetNotAFunction) calls, db) \<and>
   filter (matches sid ty v) (snd (run_calls repository_connection calls [])) = []"
proof -
  have one: "addEntity repository_connection env db sid ty v md = (Inl GetNotAFunction, db)"
    for env db sid ty v md
    by (simp add: addEntity_def repository_connection_def)
  have many: "run_calls repository_connection calls db = (map (\<lambda>c. Inl GetNotAFunction) calls, db)"
    for db
    by (induction calls) (simp_all add: addEntity_call_def one)
  from one many show ?thesis by simp
qed

theorem addEntity_rejected_on_repository_connection_witness:
  "run_calls repository_connection
     [ada_call 10 ''ent_1'', ada_call 20 ''ent_2'', ada_call 30 ''ent_3''] [] =
     ([Inl GetNotAFunction, Inl GetNotAFunction, Inl GetNotAFunction], []) \<and>
   filter (matches ''s1'' ''person'' ''Ada'')
     (snd (run_calls repository_connection
             [ada_call 10 ''ent_1'', ada_call 20 ''ent_2'', ada_call 30 ''ent_3''] [])) = []"
  using addEntity_rejected_on_repository_connection
    [where db = "[]" and sid = "''s1''" and ty = "''person''" and v = "''Ada''"
       and calls = "[ada_call 10 ''ent_1'', ada_call 20 ''ent_2'', ada_call 30 ''ent_3'']"]
  by simp

end
